theory Spec2Isabelle
  imports Main "HOL-Library.Sublist"
begin

section \<open>JavaScript values\<close>

text \<open>
  The values that server.js passes around: rows returned by \<^verbatim>\<open>pool.query\<close>, JWT
  payloads and the bodies given to \<^verbatim>\<open>res.json\<close>. An object is an association list
  in the order of its literal. A \<^verbatim>\<open>Date\<close> (the \<^verbatim>\<open>created_at\<close> column) is kept
  as its number of seconds.
\<close>

datatype jval =
    JUndef
  | JNull
  | JBool bool
  | JNum int
  | JStr string
  | JDate nat
  | JArr "jval list"
  | JObj "(string \<times> jval) list"

type_synonym obj = "(string \<times> jval) list"

text \<open>JavaScript truthiness, as used by \<^verbatim>\<open>!x\<close>, \<^verbatim>\<open>x || y\<close> and \<^verbatim>\<open>x ? a : b\<close>.\<close>

fun truthy :: "jval \<Rightarrow> bool" where
  "truthy JUndef = False"
| "truthy JNull = False"
| "truthy (JBool b) = b"
| "truthy (JNum n) = (n \<noteq> 0)"
| "truthy (JStr s) = (s \<noteq> [])"
| "truthy (JDate t) = True"
| "truthy (JArr xs) = True"
| "truthy (JObj kvs) = True"

text \<open>\<^verbatim>\<open>a || b\<close>\<close>

definition js_or :: "jval \<Rightarrow> jval \<Rightarrow> jval" where
  "js_or a b = (if truthy a then a else b)"

text \<open>\<^verbatim>\<open>row.k\<close> on an object: a missing property reads as \<^verbatim>\<open>undefined\<close>.\<close>

definition get_prop :: "obj \<Rightarrow> string \<Rightarrow> jval" where
  "get_prop row k = (case map_of row k of Some v \<Rightarrow> v | None \<Rightarrow> JUndef)"

text \<open>The same on any value that is not \<^verbatim>\<open>null\<close> or \<^verbatim>\<open>undefined\<close>; used to read
  response bodies.\<close>

definition get_field :: "jval \<Rightarrow> string \<Rightarrow> jval" where
  "get_field v k = (case v of JObj kvs \<Rightarrow> get_prop kvs k | _ \<Rightarrow> JUndef)"

definition has_key :: "jval \<Rightarrow> string \<Rightarrow> bool" where
  "has_key v k = (case v of JObj kvs \<Rightarrow> k \<in> fst ` set kvs | _ \<Rightarrow> False)"

text \<open>
  \<^verbatim>\<open>res.json\<close> serialises with \<^verbatim>\<open>JSON.stringify\<close>: a property whose value is
  \<^verbatim>\<open>undefined\<close> is left out, an \<^verbatim>\<open>undefined\<close> array element becomes \<^verbatim>\<open>null\<close>.
\<close>

primrec to_json :: "jval \<Rightarrow> jval"
  and to_json_elems :: "jval list \<Rightarrow> jval list"
  and to_json_props :: "(string \<times> jval) list \<Rightarrow> (string \<times> jval) list"
  and to_json_prop :: "string \<times> jval \<Rightarrow> (string \<times> jval) list" where
  "to_json JUndef = JUndef"
| "to_json JNull = JNull"
| "to_json (JBool b) = JBool b"
| "to_json (JNum n) = JNum n"
| "to_json (JStr s) = JStr s"
| "to_json (JDate t) = JDate t"
| "to_json (JArr xs) = JArr (to_json_elems xs)"
| "to_json (JObj kvs) = JObj (to_json_props kvs)"
| "to_json_elems [] = []"
| "to_json_elems (v # vs) = (if to_json v = JUndef then JNull else to_json v) # to_json_elems vs"
| "to_json_props [] = []"
| "to_json_props (kv # kvs) = to_json_prop kv @ to_json_props kvs"
| "to_json_prop (k, v) = (if to_json v = JUndef then [] else [(k, to_json v)])"

section \<open>Strings\<close>

text \<open>\<^verbatim>\<open>s.split(c)\<close> for a separator of one character: never empty,
  \<^verbatim>\<open>"".split("-")\<close> is \<^verbatim>\<open>[""]\<close>.\<close>

fun split_js :: "char \<Rightarrow> string \<Rightarrow> string list" where
  "split_js c [] = [[]]"
| "split_js c (x # xs) =
     (if x = c then [] # split_js c xs
      else (case split_js c xs of
              [] \<Rightarrow> [[x]]
            | y # ys \<Rightarrow> (x # y) # ys))"

text \<open>\<^verbatim>\<open>xs[i]\<close>: \<^verbatim>\<open>undefined\<close> (None) out of range.\<close>

definition index_js :: "'a list \<Rightarrow> nat \<Rightarrow> 'a option" where
  "index_js xs i = (if i < length xs then Some (xs ! i) else None)"

section \<open>Configuration\<close>

text \<open>\<^verbatim>\<open>process.env\<close>: a variable is a string or absent.\<close>

record process_env =
  env_JWT_SECRET :: "string option"
  env_API_KEY :: "string option"

text \<open>\<^verbatim>\<open>process.env.V || d\<close>: the default also replaces an empty string.\<close>

definition env_or :: "string option \<Rightarrow> string \<Rightarrow> string" where
  "env_or v d = (case v of None \<Rightarrow> d | Some s \<Rightarrow> if s = [] then d else s)"

definition JWT_SECRET :: "process_env \<Rightarrow> string" where
  "JWT_SECRET pe = env_or (env_JWT_SECRET pe) ''change_this_secret''"

definition TMDB_API_KEY :: "process_env \<Rightarrow> string" where
  "TMDB_API_KEY pe = env_or (env_API_KEY pe) ''ERROR''"

section \<open>Libraries and services outside the repository\<close>

text \<open>
  What server.js requires and does not define is a parameter of the model: the e-mail
  test of express-validator and the number of errors that one of its standard validators
  (given as its test on strings) adds for a value that is neither a string nor null nor
  absent, bcryptjs (the salt it draws is inside \<open>bcrypt_hash\<close>), the compact
  serialisation and the MAC of jsonwebtoken, the text that the store's driver sends for
  a parameter that is neither a string nor null nor absent, the store's reading of a
  text parameter as an integer, \<^verbatim>\<open>encodeURIComponent\<close>, and the remote catalog
  behind \<^verbatim>\<open>axios.get\<close>. Every theorem holds for all of them, unless it states a
  hypothesis.
\<close>

record jwt_claims =
  jwt_userId :: jval
  jwt_iat :: nat
  jwt_exp :: nat

record tmdb_genre =
  g_id :: jval
  g_name :: jval

text \<open>A movie of the catalog: \<^verbatim>\<open>release_date\<close> and \<^verbatim>\<open>poster_path\<close> are strings, or
  None when the field is null or absent; \<^verbatim>\<open>genres\<close> is an array or absent.\<close>

record tmdb_movie =
  m_id :: jval
  m_title :: jval
  m_overview :: jval
  release_date :: "string option"
  poster_path :: "string option"
  genres :: "tmdb_genre list option"

text \<open>The \<^verbatim>\<open>data\<close> of a catalog answer: a page with \<^verbatim>\<open>results\<close>, or one movie.\<close>

datatype tmdb_data = Page "tmdb_movie list" | Movie tmdb_movie

record lib =
  isEmail :: "string \<Rightarrow> bool"
  ev_standard :: "(string \<Rightarrow> bool) \<Rightarrow> jval \<Rightarrow> nat"
  bcrypt_hash :: "string \<Rightarrow> nat \<Rightarrow> string"
  bcrypt_compare :: "string \<Rightarrow> string \<Rightarrow> bool"
  jwt_encode :: "jwt_claims \<Rightarrow> string \<Rightarrow> string"
  jwt_decode :: "string \<Rightarrow> (jwt_claims \<times> string) option"
  jwt_mac :: "string \<Rightarrow> jwt_claims \<Rightarrow> string"
  pg_prepare :: "jval \<Rightarrow> string"
  int4_in :: "string \<Rightarrow> int option"
  encodeURIComponent :: "string \<Rightarrow> string"
  axios_get :: "string \<Rightarrow> tmdb_data option"

text \<open>What a \<^verbatim>\<open>try\<close> block of server.js can catch.\<close>

datatype exn = DbError | TypeError | BcryptError | JwtError string | AxiosError

subsection \<open>jsonwebtoken\<close>

text \<open>
  \<^verbatim>\<open>jwt.sign(payload, secret, {expiresIn})\<close> at clock \<open>now\<close> (seconds): the claims get
  \<^verbatim>\<open>iat\<close> and \<^verbatim>\<open>exp = iat + expiresIn\<close> and are serialised with their MAC.
\<close>

definition jwt_sign :: "lib \<Rightarrow> jval \<Rightarrow> string \<Rightarrow> nat \<Rightarrow> nat \<Rightarrow> string" where
  "jwt_sign X userId secret expiresIn now =
     (let c = \<lparr>jwt_userId = userId, jwt_iat = now, jwt_exp = now + expiresIn\<rparr>
      in jwt_encode X c (jwt_mac X secret c))"

text \<open>
  \<^verbatim>\<open>jwt.verify(token, secret)\<close> at clock \<open>now\<close>: throws on a missing or empty token, on
  one that does not parse, on a wrong signature, and, after the signature, on
  \<^verbatim>\<open>now >= exp\<close>; otherwise returns the payload.
\<close>

definition jwt_verify :: "lib \<Rightarrow> string option \<Rightarrow> string \<Rightarrow> nat \<Rightarrow> exn + jwt_claims" where
  "jwt_verify X token secret now =
     (case token of
        None \<Rightarrow> Inl (JwtError ''jwt must be provided'')
      | Some t \<Rightarrow>
          if t = [] then Inl (JwtError ''jwt must be provided'')
          else (case jwt_decode X t of
                  None \<Rightarrow> Inl (JwtError ''jwt malformed'')
                | Some (c, sg) \<Rightarrow>
                    if sg \<noteq> jwt_mac X secret c then Inl (JwtError ''invalid signature'')
                    else if jwt_exp c \<le> now then Inl (JwtError ''jwt expired'')
                    else Inr c))"

text \<open>\<^verbatim>\<open>"1h"\<close> and \<^verbatim>\<open>"7d"\<close> in seconds.\<close>

definition one_hour :: nat where "one_hour = 3600"
definition seven_days :: nat where "seven_days = 604800"

subsection \<open>bcryptjs\<close>

text \<open>Both calls throw unless their arguments are strings.\<close>

definition bcrypt_hash_call :: "lib \<Rightarrow> jval \<Rightarrow> nat \<Rightarrow> exn + string" where
  "bcrypt_hash_call X password rounds =
     (case password of JStr p \<Rightarrow> Inr (bcrypt_hash X p rounds) | _ \<Rightarrow> Inl BcryptError)"

definition bcrypt_compare_call :: "lib \<Rightarrow> jval \<Rightarrow> jval \<Rightarrow> exn + bool" where
  "bcrypt_compare_call X password hash =
     (case password of
        JStr p \<Rightarrow> (case hash of JStr h \<Rightarrow> Inr (bcrypt_compare X p h) | _ \<Rightarrow> Inl BcryptError)
      | _ \<Rightarrow> Inl BcryptError)"

section \<open>The store\<close>

text \<open>
  The table \<^verbatim>\<open>users\<close> as README.md creates it: \<^verbatim>\<open>id SERIAL PRIMARY KEY\<close>,
  \<^verbatim>\<open>username VARCHAR(50) NOT NULL UNIQUE\<close>, \<^verbatim>\<open>email VARCHAR(255) NOT NULL UNIQUE\<close>,
  \<^verbatim>\<open>password_hash VARCHAR(255) NOT NULL\<close>, \<^verbatim>\<open>display_name VARCHAR(100)\<close>,
  \<^verbatim>\<open>created_at\<close> defaulting to the time of the insert.
\<close>

record user_row =
  u_id :: int
  u_username :: string
  u_email :: string
  u_password_hash :: string
  u_display_name :: "string option"
  u_created_at :: nat

text \<open>
  Modelled from the spec: the table \<^verbatim>\<open>saved_movies\<close>, which no file of the
  repository declares. Its columns are those of the spec's persisted state layout
  (id, user_id, movie_id, title, year, poster, created_at), with a serial id, integer
  user and movie ids, text columns for title (never NULL), year and poster, and no
  constraint between rows.
\<close>

record saved_row =
  s_id :: int
  s_user_id :: int
  s_movie_id :: int
  s_title :: string
  s_year :: "string option"
  s_poster :: "string option"
  s_created_at :: nat

text \<open>The state behind \<^verbatim>\<open>pool\<close>: both tables in insertion order, the two id
  sequences, and whether the store answers at all (a query on a store that is not
  online throws).\<close>

record db =
  users :: "user_row list"
  saved_movies :: "saved_row list"
  users_seq :: int
  saved_seq :: int
  online :: bool

text \<open>The row object that a query returns for the selected columns.\<close>

definition user_col :: "user_row \<Rightarrow> string \<Rightarrow> jval" where
  "user_col r c =
     (if c = ''id'' then JNum (u_id r)
      else if c = ''username'' then JStr (u_username r)
      else if c = ''email'' then JStr (u_email r)
      else if c = ''password_hash'' then JStr (u_password_hash r)
      else if c = ''display_name'' then (case u_display_name r of None \<Rightarrow> JNull | Some d \<Rightarrow> JStr d)
      else if c = ''created_at'' then JDate (u_created_at r)
      else JUndef)"

definition user_obj :: "string list \<Rightarrow> user_row \<Rightarrow> obj" where
  "user_obj cols r = map (\<lambda>c. (c, user_col r c)) cols"

definition null_or_str :: "string option \<Rightarrow> jval" where
  "null_or_str v = (case v of None \<Rightarrow> JNull | Some s \<Rightarrow> JStr s)"

text \<open>\<^verbatim>\<open>RETURNING *\<close> and \<^verbatim>\<open>SELECT *\<close> on saved_movies.\<close>

definition saved_obj :: "saved_row \<Rightarrow> obj" where
  "saved_obj r =
     [(''id'', JNum (s_id r)), (''user_id'', JNum (s_user_id r)),
      (''movie_id'', JNum (s_movie_id r)), (''title'', JStr (s_title r)),
      (''year'', null_or_str (s_year r)), (''poster'', null_or_str (s_poster r)),
      (''created_at'', JDate (s_created_at r))]"

text \<open>
  A query parameter bound to an integer column: \<^verbatim>\<open>undefined\<close> and \<^verbatim>\<open>null\<close> are
  NULL, a number is itself, a string is read by the store, and anything else is sent as
  a text that is no integer, so the query fails; so does a value outside the range of
  the column.
\<close>

definition int4_fit :: "int \<Rightarrow> exn + int option" where
  "int4_fit n = (if - 2147483648 \<le> n \<and> n \<le> 2147483647 then Inr (Some n) else Inl DbError)"

definition pg_int :: "lib \<Rightarrow> jval \<Rightarrow> exn + int option" where
  "pg_int X v =
     (case v of
        JUndef \<Rightarrow> Inr None
      | JNull \<Rightarrow> Inr None
      | JNum n \<Rightarrow> int4_fit n
      | JStr s \<Rightarrow> (case int4_in X s of None \<Rightarrow> Inl DbError | Some n \<Rightarrow> int4_fit n)
      | _ \<Rightarrow> Inl DbError)"

text \<open>
  A query parameter bound to a text column: \<^verbatim>\<open>undefined\<close> and \<^verbatim>\<open>null\<close> are
  NULL, a string is itself, and any other value is the text that the driver sends for
  it. The store refuses a text that contains the character U+0000, and the query fails.
\<close>

definition has_nul :: "string \<Rightarrow> bool" where
  "has_nul s = (CHR 0x00 \<in> set s)"

definition text_in :: "string \<Rightarrow> exn + string option" where
  "text_in s = (if has_nul s then Inl DbError else Inr (Some s))"

definition pg_text :: "lib \<Rightarrow> jval \<Rightarrow> exn + string option" where
  "pg_text X v =
     (case v of
        JUndef \<Rightarrow> Inr None
      | JNull \<Rightarrow> Inr None
      | JStr s \<Rightarrow> text_in s
      | _ \<Rightarrow> text_in (pg_prepare X v))"

text \<open>
  A text stored in a \<^verbatim>\<open>VARCHAR(n)\<close> column: one longer than \<open>n\<close> is cut to \<open>n\<close>
  characters when all that is cut off is spaces, and fails the statement otherwise.
\<close>

definition varchar :: "nat \<Rightarrow> string \<Rightarrow> exn + string" where
  "varchar n s =
     (if length s \<le> n then Inr s
      else if list_all (\<lambda>c. c = CHR '' '') (drop n s) then Inr (take n s)
      else Inl DbError)"

text \<open>\<^verbatim>\<open>SELECT id FROM users WHERE username = $1\<close>\<close>

definition select_id_by_username :: "lib \<Rightarrow> db \<Rightarrow> jval \<Rightarrow> exn + obj list" where
  "select_id_by_username X d v =
     (if \<not> online d then Inl DbError
      else (case pg_text X v of
              Inl e \<Rightarrow> Inl e
            | Inr p \<Rightarrow>
                Inr (map (user_obj [''id''])
                       (filter (\<lambda>r. Some (u_username r) = p) (users d)))))"

text \<open>\<^verbatim>\<open>SELECT id FROM users WHERE email = $1\<close>\<close>

definition select_id_by_email :: "lib \<Rightarrow> db \<Rightarrow> jval \<Rightarrow> exn + obj list" where
  "select_id_by_email X d v =
     (if \<not> online d then Inl DbError
      else (case pg_text X v of
              Inl e \<Rightarrow> Inl e
            | Inr p \<Rightarrow>
                Inr (map (user_obj [''id''])
                       (filter (\<lambda>r. Some (u_email r) = p) (users d)))))"

text \<open>\<^verbatim>\<open>INSERT INTO users (username, email, password_hash, display_name) VALUES
  ($1,$2,$3,$4) RETURNING id, username, email, display_name, created_at\<close>: one atomic
  statement that fails on a parameter the store refuses, on a NULL in a NOT NULL column,
  on a value too long for its column and on a duplicate key.\<close>

definition insert_user ::
  "lib \<Rightarrow> db \<Rightarrow> nat \<Rightarrow> jval \<Rightarrow> jval \<Rightarrow> jval \<Rightarrow> jval \<Rightarrow> exn + (obj list \<times> db)" where
  "insert_user X d now username email password_hash display_name =
     (if \<not> online d then Inl DbError
      else (case (pg_text X username, pg_text X email, pg_text X password_hash,
                  pg_text X display_name) of
              (Inr (Some u0), Inr (Some e0), Inr (Some h0), Inr n0) \<Rightarrow>
                (case (varchar 50 u0, varchar 255 e0, varchar 255 h0,
                       (case n0 of None \<Rightarrow> Inr None
                        | Some n1 \<Rightarrow> (case varchar 100 n1 of Inl x \<Rightarrow> Inl x
                                     | Inr n2 \<Rightarrow> Inr (Some n2)))) of
                   (Inr u, Inr e, Inr h, Inr n) \<Rightarrow>
                     if list_ex (\<lambda>r. u_id r = users_seq d \<or> u_username r = u \<or> u_email r = e)
                          (users d)
                     then Inl DbError
                     else
                       (let r = \<lparr>u_id = users_seq d, u_username = u, u_email = e,
                                 u_password_hash = h, u_display_name = n,
                                 u_created_at = now\<rparr>
                        in Inr ([user_obj [''id'', ''username'', ''email'', ''display_name'',
                                           ''created_at''] r],
                                d\<lparr>users := users d @ [r], users_seq := users_seq d + 1\<rparr>))
                 | _ \<Rightarrow> Inl DbError)
            | _ \<Rightarrow> Inl DbError))"

text \<open>\<^verbatim>\<open>SELECT id, username, email, password_hash, display_name, created_at FROM users
  WHERE username = $1\<close>\<close>

definition select_user_by_username :: "lib \<Rightarrow> db \<Rightarrow> jval \<Rightarrow> exn + obj list" where
  "select_user_by_username X d v =
     (if \<not> online d then Inl DbError
      else (case pg_text X v of
              Inl e \<Rightarrow> Inl e
            | Inr p \<Rightarrow>
                Inr (map (user_obj [''id'', ''username'', ''email'', ''password_hash'',
                                    ''display_name'', ''created_at''])
                       (filter (\<lambda>r. Some (u_username r) = p) (users d)))))"

text \<open>\<^verbatim>\<open>SELECT id, username, email, display_name, created_at FROM users WHERE id = $1\<close>\<close>

definition select_user_by_id :: "lib \<Rightarrow> db \<Rightarrow> jval \<Rightarrow> exn + obj list" where
  "select_user_by_id X d v =
     (if \<not> online d then Inl DbError
      else (case pg_int X v of
              Inl e \<Rightarrow> Inl e
            | Inr p \<Rightarrow>
                Inr (map (user_obj [''id'', ''username'', ''email'', ''display_name'',
                                    ''created_at''])
                       (filter (\<lambda>r. Some (u_id r) = p) (users d)))))"

text \<open>\<^verbatim>\<open>INSERT INTO saved_movies (user_id, movie_id, title, year, poster) VALUES
  ($1,$2,$3,$4,$5) RETURNING *\<close>\<close>

definition insert_saved ::
  "lib \<Rightarrow> db \<Rightarrow> nat \<Rightarrow> jval \<Rightarrow> jval \<Rightarrow> jval \<Rightarrow> jval \<Rightarrow> jval
     \<Rightarrow> exn + (obj list \<times> db)" where
  "insert_saved X d now user_id movie_id title year poster =
     (if \<not> online d then Inl DbError
      else (case (pg_int X user_id, pg_int X movie_id) of
              (Inr (Some u), Inr (Some m)) \<Rightarrow>
                (case (pg_text X title, pg_text X year, pg_text X poster) of
                   (Inr (Some t), Inr y, Inr p) \<Rightarrow>
                     (let r = \<lparr>s_id = saved_seq d, s_user_id = u, s_movie_id = m, s_title = t,
                               s_year = y, s_poster = p, s_created_at = now\<rparr>
                      in Inr ([saved_obj r],
                              d\<lparr>saved_movies := saved_movies d @ [r],
                                saved_seq := saved_seq d + 1\<rparr>))
                 | _ \<Rightarrow> Inl DbError)
            | _ \<Rightarrow> Inl DbError))"

text \<open>\<^verbatim>\<open>SELECT * FROM saved_movies WHERE user_id = $1 ORDER BY created_at DESC\<close>; rows
  of one creation time come in some order, here the later insert first.\<close>

definition select_saved_by_user :: "lib \<Rightarrow> db \<Rightarrow> jval \<Rightarrow> exn + obj list" where
  "select_saved_by_user X d user_id =
     (if \<not> online d then Inl DbError
      else (case pg_int X user_id of
              Inl e \<Rightarrow> Inl e
            | Inr p \<Rightarrow>
                Inr (map saved_obj
                       (rev (sort_key s_created_at
                               (filter (\<lambda>r. Some (s_user_id r) = p) (saved_movies d)))))))"

text \<open>\<^verbatim>\<open>DELETE FROM saved_movies WHERE user_id = $1 AND movie_id = $2 RETURNING id\<close>\<close>

definition delete_saved :: "lib \<Rightarrow> db \<Rightarrow> jval \<Rightarrow> jval \<Rightarrow> exn + (obj list \<times> db)" where
  "delete_saved X d user_id movie_id =
     (if \<not> online d then Inl DbError
      else (case pg_int X user_id of
              Inl e \<Rightarrow> Inl e
            | Inr u \<Rightarrow>
                (case pg_int X movie_id of
                   Inl e \<Rightarrow> Inl e
                 | Inr m \<Rightarrow>
                     (let hit = (\<lambda>r. Some (s_user_id r) = u \<and> Some (s_movie_id r) = m)
                      in Inr (map (\<lambda>r. [(''id'', JNum (s_id r))])
                                (filter hit (saved_movies d)),
                              d\<lparr>saved_movies := filter (\<lambda>r. \<not> hit r) (saved_movies d)\<rparr>)))))"

section \<open>Responses\<close>

record response =
  status :: nat
  body :: jval

text \<open>\<^verbatim>\<open>res.status(s).json(b)\<close>; \<^verbatim>\<open>res.json(b)\<close> is the same with status 200.\<close>

definition res_json :: "nat \<Rightarrow> jval \<Rightarrow> response" where
  "res_json s b = \<lparr>status = s, body = to_json b\<rparr>"

text \<open>\<^verbatim>\<open>{ message: m }\<close>\<close>

definition message :: "string \<Rightarrow> jval" where
  "message m = JObj [(''message'', JStr m)]"

section \<open>Accounts\<close>

definition sanitizeUser :: "obj \<Rightarrow> jval" where
  "sanitizeUser row =
     JObj [(''id'', get_prop row ''id''),
           (''username'', get_prop row ''username''),
           (''email'', get_prop row ''email''),
           (''display_name'', js_or (get_prop row ''display_name'') JNull),
           (''created_at'', get_prop row ''created_at'')]"

text \<open>The JSON body of the two account routes: each field is any JSON value, or absent
  (\<^verbatim>\<open>undefined\<close>).\<close>

record req_body =
  username :: jval
  email :: jval
  password :: jval
  confirmPassword :: jval

text \<open>\<^verbatim>\<open>a !== b\<close> is the negation of this: values of the same primitive type are
  compared, and two objects or arrays read from different fields are never the same.\<close>

fun js_strict_eq :: "jval \<Rightarrow> jval \<Rightarrow> bool" where
  "js_strict_eq JUndef JUndef = True"
| "js_strict_eq JNull JNull = True"
| "js_strict_eq (JBool a) (JBool b) = (a = b)"
| "js_strict_eq (JNum a) (JNum b) = (a = b)"
| "js_strict_eq (JStr a) (JStr b) = (a = b)"
| "js_strict_eq a b = False"

text \<open>
  A standard validator of express-validator (\<^verbatim>\<open>isLength\<close>, \<^verbatim>\<open>isEmail\<close>) tests the
  string form of a field and adds an error when the test fails: a string is tested as
  it is, an absent or null field as the empty string, and any other value as the
  library stringifies it (an array element by element, so that it can add several
  errors or none). \<^verbatim>\<open>exists()\<close> fails on \<^verbatim>\<open>undefined\<close> only. An entry of
  \<^verbatim>\<open>errors.array()\<close> is kept as its message and its field.
\<close>

definition standard_errors :: "lib \<Rightarrow> (string \<Rightarrow> bool) \<Rightarrow> jval \<Rightarrow> nat" where
  "standard_errors X test v =
     (case v of
        JStr s \<Rightarrow> if test s then 0 else 1
      | JUndef \<Rightarrow> if test [] then 0 else 1
      | JNull \<Rightarrow> if test [] then 0 else 1
      | _ \<Rightarrow> ev_standard X test v)"

definition verror :: "string \<Rightarrow> string \<Rightarrow> jval" where
  "verror path m = JObj [(''msg'', JStr m), (''path'', JStr path)]"

text \<open>The four validation chains in front of the register handler, in their order.\<close>

definition register_validation :: "lib \<Rightarrow> req_body \<Rightarrow> jval list" where
  "register_validation X b =
     replicate (standard_errors X (\<lambda>s. 3 \<le> length s) (username b))
       (verror ''username'' ''username min 3 chars'')
     @ replicate (standard_errors X (isEmail X) (email b)) (verror ''email'' ''invalid email'')
     @ replicate (standard_errors X (\<lambda>s. 6 \<le> length s) (password b))
         (verror ''password'' ''password min 6 chars'')
     @ (if confirmPassword b = JUndef
        then [verror ''confirmPassword'' ''Invalid value''] else [])"

text \<open>The \<^verbatim>\<open>try\<close> block of the register handler; Inl is what its \<^verbatim>\<open>catch\<close> receives.\<close>

definition register_try ::
  "lib \<Rightarrow> process_env \<Rightarrow> nat \<Rightarrow> req_body \<Rightarrow> db \<Rightarrow> exn + (response \<times> db)" where
  "register_try X pe now b d =
     (case select_id_by_username X d (username b) of
        Inl e \<Rightarrow> Inl e
      | Inr userByUsername \<Rightarrow>
          if userByUsername \<noteq> []
          then Inr (res_json 400 (message ''username already taken''), d)
          else (case select_id_by_email X d (email b) of
                  Inl e \<Rightarrow> Inl e
                | Inr userByEmail \<Rightarrow>
                    if userByEmail \<noteq> []
                    then Inr (res_json 400 (message ''email already used''), d)
                    else (case bcrypt_hash_call X (password b) 12 of
                            Inl e \<Rightarrow> Inl e
                          | Inr password_hash \<Rightarrow>
                              (let display_name = username b in
                               case insert_user X d now (username b) (email b)
                                      (JStr password_hash) display_name of
                                 Inl e \<Rightarrow> Inl e
                               | Inr (rows, d') \<Rightarrow>
                                   (case rows of
                                      [] \<Rightarrow> Inl TypeError
                                    | user # _ \<Rightarrow>
                                        (let token = jwt_sign X (get_prop user ''id'')
                                                       (JWT_SECRET pe) one_hour now
                                         in Inr (res_json 201
                                                   (JObj [(''user'', sanitizeUser user),
                                                          (''token'', JStr token)]),
                                                 d')))))))"

text \<open>\<^verbatim>\<open>POST /api/register\<close>\<close>

definition post_api_register ::
  "lib \<Rightarrow> process_env \<Rightarrow> nat \<Rightarrow> req_body \<Rightarrow> db \<Rightarrow> response \<times> db" where
  "post_api_register X pe now b d =
     (let errors = register_validation X b in
      if errors \<noteq> [] then (res_json 400 (JObj [(''errors'', JArr errors)]), d)
      else if \<not> js_strict_eq (password b) (confirmPassword b)
      then (res_json 400 (message ''passwords do not match''), d)
      else (case register_try X pe now b d of
              Inl err \<Rightarrow> (res_json 500 (message ''internal error''), d)
            | Inr r \<Rightarrow> r))"

definition login_validation :: "req_body \<Rightarrow> jval list" where
  "login_validation b =
     (if username b = JUndef then [verror ''username'' ''Invalid value''] else [])
     @ (if password b = JUndef then [verror ''password'' ''Invalid value''] else [])"

definition login_try :: "lib \<Rightarrow> process_env \<Rightarrow> nat \<Rightarrow> req_body \<Rightarrow> db \<Rightarrow> exn + response" where
  "login_try X pe now b d =
     (case select_user_by_username X d (username b) of
        Inl e \<Rightarrow> Inl e
      | Inr rows \<Rightarrow>
          (case rows of
             [] \<Rightarrow> Inr (res_json 401 (message ''invalid credentials''))
           | user # _ \<Rightarrow>
               (case bcrypt_compare_call X (password b) (get_prop user ''password_hash'') of
                  Inl e \<Rightarrow> Inl e
                | Inr ok \<Rightarrow>
                    if \<not> ok then Inr (res_json 401 (message ''invalid credentials''))
                    else (let token = jwt_sign X (get_prop user ''id'') (JWT_SECRET pe)
                                        seven_days now
                          in Inr (res_json 200 (JObj [(''user'', sanitizeUser user),
                                                      (''token'', JStr token)]))))))"

text \<open>\<^verbatim>\<open>POST /api/login\<close>\<close>

definition post_api_login ::
  "lib \<Rightarrow> process_env \<Rightarrow> nat \<Rightarrow> req_body \<Rightarrow> db \<Rightarrow> response \<times> db" where
  "post_api_login X pe now b d =
     (let errors = login_validation b in
      if errors \<noteq> [] then (res_json 400 (JObj [(''errors'', JArr errors)]), d)
      else (case login_try X pe now b d of
              Inl err \<Rightarrow> (res_json 500 (message ''internal error''), d)
            | Inr r \<Rightarrow> (r, d)))"

section \<open>Identity of a request\<close>

text \<open>The \<^verbatim>\<open>try\<close> block of authMiddleware: Inl is what its \<^verbatim>\<open>catch\<close> receives, Inr
  (Inl r) the response it sends itself, Inr (Inr user) the row left in \<^verbatim>\<open>req.user\<close>
  before \<^verbatim>\<open>next()\<close>.\<close>

definition authMiddleware_try ::
  "lib \<Rightarrow> process_env \<Rightarrow> nat \<Rightarrow> string option \<Rightarrow> db \<Rightarrow> exn + (response + obj)" where
  "authMiddleware_try X pe now token d =
     (case jwt_verify X token (JWT_SECRET pe) now of
        Inl e \<Rightarrow> Inl e
      | Inr payload \<Rightarrow>
          (case select_user_by_id X d (jwt_userId payload) of
             Inl e \<Rightarrow> Inl e
           | Inr rows \<Rightarrow>
               (case rows of
                  [] \<Rightarrow> Inr (Inl (res_json 401 (message ''invalid token'')))
                | user # _ \<Rightarrow> Inr (Inr user))))"

text \<open>\<open>auth\<close> is \<^verbatim>\<open>req.headers.authorization\<close>, absent or a string.\<close>

definition authMiddleware ::
  "lib \<Rightarrow> process_env \<Rightarrow> nat \<Rightarrow> string option \<Rightarrow> db \<Rightarrow> response + obj" where
  "authMiddleware X pe now auth d =
     (case auth of
        None \<Rightarrow> Inl (res_json 401 (message ''no token''))
      | Some a \<Rightarrow>
          if a = [] \<or> \<not> prefix ''Bearer '' a
          then Inl (res_json 401 (message ''no token''))
          else (let token = index_js (split_js CHR '' '' a) 1 in
                case authMiddleware_try X pe now token d of
                  Inl err \<Rightarrow> Inl (res_json 401 (message ''invalid token''))
                | Inr r \<Rightarrow> r))"

text \<open>\<^verbatim>\<open>GET /api/me\<close>\<close>

definition get_api_me :: "lib \<Rightarrow> process_env \<Rightarrow> nat \<Rightarrow> string option \<Rightarrow> db \<Rightarrow> response" where
  "get_api_me X pe now auth d =
     (case authMiddleware X pe now auth d of
        Inl r \<Rightarrow> r
      | Inr user \<Rightarrow> res_json 200 (JObj [(''user'', sanitizeUser user)]))"

section \<open>Catalog proxy\<close>

text \<open>\<^verbatim>\<open>m.release_date?.split("-")[0]\<close>\<close>

definition year_of :: "string option \<Rightarrow> jval" where
  "year_of rd =
     (case rd of
        None \<Rightarrow> JUndef
      | Some s \<Rightarrow> (case index_js (split_js CHR ''-'' s) 0 of None \<Rightarrow> JUndef | Some y \<Rightarrow> JStr y))"

text \<open>\<^verbatim>\<open>m.poster_path ? `https://image.tmdb.org/t/p/w500${m.poster_path}` : null\<close>\<close>

definition poster_of :: "string option \<Rightarrow> jval" where
  "poster_of pp =
     (case pp of
        None \<Rightarrow> JNull
      | Some p \<Rightarrow> if p \<noteq> [] then JStr (''https://image.tmdb.org/t/p/w500'' @ p) else JNull)"

text \<open>The object literal that the search and trending handlers map over
  \<^verbatim>\<open>data.results\<close>.\<close>

definition result_item :: "tmdb_movie \<Rightarrow> jval" where
  "result_item m =
     JObj [(''id'', m_id m), (''title'', m_title m), (''overview'', m_overview m),
           (''year'', year_of (release_date m)), (''poster'', poster_of (poster_path m))]"

text \<open>The object literal of the details handler.\<close>

definition details_item :: "tmdb_movie \<Rightarrow> jval" where
  "details_item m =
     JObj [(''id'', m_id m), (''title'', m_title m), (''overview'', m_overview m),
           (''year'', year_of (release_date m)), (''poster'', poster_of (poster_path m)),
           (''genres'', (case genres m of None \<Rightarrow> JUndef | Some gs \<Rightarrow> JArr (map g_name gs)))]"

text \<open>A page read as a movie has none of the movie's fields.\<close>

definition no_fields :: tmdb_movie where
  "no_fields = \<lparr>m_id = JUndef, m_title = JUndef, m_overview = JUndef, release_date = None,
                poster_path = None, genres = None\<rparr>"

text \<open>\<^verbatim>\<open>GET /api/movies/search\<close>; \<open>query\<close> is \<^verbatim>\<open>req.query.query\<close>. Each handler
  builds its \<^verbatim>\<open>url\<close> first. A rejected \<^verbatim>\<open>axios.get\<close> is None;
  \<^verbatim>\<open>data.results.map\<close> throws when \<^verbatim>\<open>data\<close> has no results.\<close>

definition search_url :: "lib \<Rightarrow> process_env \<Rightarrow> string \<Rightarrow> string" where
  "search_url X pe q =
     ''https://api.themoviedb.org/3/search/movie?api_key='' @ TMDB_API_KEY pe
       @ ''&query='' @ encodeURIComponent X q @ ''&language=ru''"

definition get_api_movies_search :: "lib \<Rightarrow> process_env \<Rightarrow> string option \<Rightarrow> response" where
  "get_api_movies_search X pe query =
     (case query of
        None \<Rightarrow> res_json 400 (message ''query is required'')
      | Some q \<Rightarrow>
          if q = [] then res_json 400 (message ''query is required'')
          else (let url = search_url X pe q
                in case axios_get X url of
                     None \<Rightarrow> res_json 500 (message ''movies search failed'')
                   | Some (Movie m) \<Rightarrow> res_json 500 (message ''movies search failed'')
                   | Some (Page ms) \<Rightarrow>
                       res_json 200 (JObj [(''results'', JArr (map result_item ms))])))"

text \<open>\<^verbatim>\<open>GET /api/movies/trending\<close>\<close>

definition trending_url :: "process_env \<Rightarrow> string" where
  "trending_url pe =
     ''https://api.themoviedb.org/3/trending/movie/week?api_key='' @ TMDB_API_KEY pe
       @ ''&language=ru''"

definition get_api_movies_trending :: "lib \<Rightarrow> process_env \<Rightarrow> response" where
  "get_api_movies_trending X pe =
     (let url = trending_url pe
      in case axios_get X url of
           None \<Rightarrow> res_json 500 (message ''trending fetch failed'')
         | Some (Movie m) \<Rightarrow> res_json 500 (message ''trending fetch failed'')
         | Some (Page ms) \<Rightarrow> res_json 200 (JObj [(''results'', JArr (map result_item ms))]))"

text \<open>\<^verbatim>\<open>GET /api/movies/details/:id\<close>; \<open>movieId\<close> is \<^verbatim>\<open>req.params.id\<close>.\<close>

definition details_url :: "process_env \<Rightarrow> string \<Rightarrow> string" where
  "details_url pe movieId =
     ''https://api.themoviedb.org/3/movie/'' @ movieId @ ''?api_key='' @ TMDB_API_KEY pe
       @ ''&language=ru''"

definition get_api_movies_details :: "lib \<Rightarrow> process_env \<Rightarrow> string \<Rightarrow> response" where
  "get_api_movies_details X pe movieId =
     (let url = details_url pe movieId
      in case axios_get X url of
           None \<Rightarrow> res_json 500 (message ''movie details failed'')
         | Some (Movie m) \<Rightarrow> res_json 200 (details_item m)
         | Some (Page ms) \<Rightarrow> res_json 200 (details_item no_fields))"

section \<open>Saved movies\<close>

text \<open>The JSON body of the save route: each field is any JSON value, or absent.\<close>

record save_body =
  movie_id :: jval
  title :: jval
  year :: jval
  poster :: jval

text \<open>\<^verbatim>\<open>POST /api/movies/save\<close>\<close>

definition post_api_movies_save ::
  "lib \<Rightarrow> process_env \<Rightarrow> nat \<Rightarrow> string option \<Rightarrow> save_body \<Rightarrow> db \<Rightarrow> response \<times> db" where
  "post_api_movies_save X pe now auth b d =
     (case authMiddleware X pe now auth d of
        Inl r \<Rightarrow> (r, d)
      | Inr user \<Rightarrow>
          if \<not> truthy (movie_id b) \<or> \<not> truthy (title b)
          then (res_json 400 (message ''movie_id & title required''), d)
          else (case insert_saved X d now (get_prop user ''id'') (movie_id b) (title b)
                       (year b) (poster b) of
                  Inl e \<Rightarrow> (res_json 500 (message ''save failed''), d)
                | Inr (rows, d') \<Rightarrow>
                    (res_json 201
                       (JObj [(''movie'', (case rows of [] \<Rightarrow> JUndef | r # _ \<Rightarrow> JObj r))]),
                     d')))"

text \<open>\<^verbatim>\<open>GET /api/mymovies\<close>\<close>

definition get_api_mymovies ::
  "lib \<Rightarrow> process_env \<Rightarrow> nat \<Rightarrow> string option \<Rightarrow> db \<Rightarrow> response" where
  "get_api_mymovies X pe now auth d =
     (case authMiddleware X pe now auth d of
        Inl r \<Rightarrow> r
      | Inr user \<Rightarrow>
          (case select_saved_by_user X d (get_prop user ''id'') of
             Inl e \<Rightarrow> res_json 500 (message ''fetch failed'')
           | Inr rows \<Rightarrow> res_json 200 (JObj [(''movies'', JArr (map JObj rows))])))"

text \<open>\<^verbatim>\<open>DELETE /api/movies/:id\<close>; \<open>movieId\<close> is \<^verbatim>\<open>req.params.id\<close>.\<close>

definition delete_api_movies ::
  "lib \<Rightarrow> process_env \<Rightarrow> nat \<Rightarrow> string option \<Rightarrow> string \<Rightarrow> db \<Rightarrow> response \<times> db" where
  "delete_api_movies X pe now auth movieId d =
     (case authMiddleware X pe now auth d of
        Inl r \<Rightarrow> (r, d)
      | Inr user \<Rightarrow>
          if movieId = [] then (res_json 400 (message ''movie id is required''), d)
          else (case delete_saved X d (get_prop user ''id'') (JStr movieId) of
                  Inl e \<Rightarrow> (res_json 500 (message ''delete failed''), d)
                | Inr (rows, d') \<Rightarrow>
                    if rows = [] then (res_json 404 (message ''movie not found''), d')
                    else (res_json 200 (message ''movie removed''), d')))"

section \<open>Notions used in the statements\<close>

definition keys_of :: "jval \<Rightarrow> string list" where
  "keys_of v = (case v of JObj kvs \<Rightarrow> map fst kvs | _ \<Rightarrow> [])"

text \<open>What a response reports: the messages of its \<^verbatim>\<open>errors\<close> array, or its
  \<^verbatim>\<open>message\<close>.\<close>

definition reported :: "response \<Rightarrow> jval list" where
  "reported r =
     (case get_field (body r) ''errors'' of
        JArr es \<Rightarrow> map (\<lambda>e. get_field e ''msg'') es
      | _ \<Rightarrow> [get_field (body r) ''message''])"

text \<open>
  The contract of jsonwebtoken that the round trip of a token rests on: a token signed
  under \<open>secret\<close> for a numeric user id is a non-empty text without a space, and parses
  back to the claims and the MAC it was made from.
\<close>

definition jwt_contract :: "lib \<Rightarrow> string \<Rightarrow> bool" where
  "jwt_contract X secret =
     (\<forall>n iat ex.
        (let c = \<lparr>jwt_userId = JNum n, jwt_iat = iat, jwt_exp = ex\<rparr>;
             t = jwt_encode X c (jwt_mac X secret c)
         in jwt_decode X t = Some (c, jwt_mac X secret c) \<and> CHR '' '' \<notin> set t \<and> t \<noteq> []))"

text \<open>What \<^verbatim>\<open>sanitizeUser\<close> makes of a row of the table: the five fields it lists, an
  empty or NULL display name as \<^verbatim>\<open>null\<close>.\<close>

definition public_user :: "user_row \<Rightarrow> jval" where
  "public_user r =
     JObj [(''id'', JNum (u_id r)), (''username'', JStr (u_username r)),
           (''email'', JStr (u_email r)),
           (''display_name'',
              (case u_display_name r of
                 None \<Rightarrow> JNull
               | Some n \<Rightarrow> if n = [] then JNull else JStr n)),
           (''created_at'', JDate (u_created_at r))]"

text \<open>The \<^verbatim>\<open>user\<close> of a response body.\<close>

definition user_of :: "response \<Rightarrow> jval" where
  "user_of r = get_field (body r) ''user''"

text \<open>The rows of a table that a user owns, and those for one movie among them.\<close>

definition owned_by :: "int \<Rightarrow> saved_row list \<Rightarrow> saved_row list" where
  "owned_by u rows = filter (\<lambda>r. s_user_id r = u) rows"

definition saved_of :: "int \<Rightarrow> int \<Rightarrow> saved_row list \<Rightarrow> saved_row list" where
  "saved_of u m rows = filter (\<lambda>r. s_user_id r = u \<and> s_movie_id r = m) rows"

text \<open>A sanitized user: exactly the five fields, and no password hash among them.\<close>

definition sanitized :: "jval \<Rightarrow> bool" where
  "sanitized u =
     (keys_of u = [''id'', ''username'', ''email'', ''display_name'', ''created_at'']
      \<and> \<not> has_key u ''password_hash'')"

text \<open>The claims and signature that \<^verbatim>\<open>jwt.verify\<close> reads off a token, if it parses.\<close>

definition parsed :: "lib \<Rightarrow> string option \<Rightarrow> (jwt_claims \<times> string) option" where
  "parsed X tok = (case tok of None \<Rightarrow> None | Some t \<Rightarrow> if t = [] then None else jwt_decode X t)"

text \<open>The four ways in which a bearer token is bad: it does not parse; its signature is
  not the MAC of its claims under the secret; its expiry has passed (whatever its
  signature); its subject is the id of no row of \<^verbatim>\<open>users\<close>.\<close>

definition token_malformed :: "lib \<Rightarrow> string option \<Rightarrow> bool" where
  "token_malformed X tok = (parsed X tok = None)"

definition token_bad_signature :: "lib \<Rightarrow> string \<Rightarrow> string option \<Rightarrow> bool" where
  "token_bad_signature X secret tok =
     (case parsed X tok of None \<Rightarrow> False | Some (c, sg) \<Rightarrow> sg \<noteq> jwt_mac X secret c)"

definition token_expired :: "lib \<Rightarrow> nat \<Rightarrow> string option \<Rightarrow> bool" where
  "token_expired X now tok =
     (case parsed X tok of None \<Rightarrow> False | Some (c, sg) \<Rightarrow> jwt_exp c \<le> now)"

definition token_subject_unknown :: "lib \<Rightarrow> db \<Rightarrow> string option \<Rightarrow> bool" where
  "token_subject_unknown X d tok =
     (case parsed X tok of
        None \<Rightarrow> False
      | Some (c, sg) \<Rightarrow>
          \<not> list_ex (\<lambda>row. pg_int X (jwt_userId c) = Inr (Some (u_id row))) (users d))"

text \<open>The two 401 responses of the token check and of the login, and the 500 response of
  the account routes.\<close>

definition invalid_token :: response where
  "invalid_token = \<lparr>status = 401, body = JObj [(''message'', JStr ''invalid token'')]\<rparr>"

definition invalid_credentials :: response where
  "invalid_credentials =
     \<lparr>status = 401, body = JObj [(''message'', JStr ''invalid credentials'')]\<rparr>"

definition internal_error :: response where
  "internal_error = \<lparr>status = 500, body = JObj [(''message'', JStr ''internal error'')]\<rparr>"

text \<open>A constraint of a standard validator fails on a field when the validator adds an
  error for it: for a string, when the test fails on it; for an absent or null field,
  when the test fails on the empty string.\<close>

definition fails :: "lib \<Rightarrow> (string \<Rightarrow> bool) \<Rightarrow> jval \<Rightarrow> bool" where
  "fails X test v = (0 < standard_errors X test v)"

text \<open>The two conflict responses.\<close>

definition username_taken :: response where
  "username_taken = \<lparr>status = 400, body = JObj [(''message'', JStr ''username already taken'')]\<rparr>"

definition email_used :: response where
  "email_used = \<lparr>status = 400, body = JObj [(''message'', JStr ''email already used'')]\<rparr>"

text \<open>The substring of a text before its first \<^verbatim>\<open>-\<close> (all of it when it has none).\<close>

definition before_dash :: "string \<Rightarrow> string" where
  "before_dash s = takeWhile (\<lambda>c. c \<noteq> CHR ''-'') s"

text \<open>The year and the poster of an item reshaped from the catalog movie \<open>m\<close>: its year is the
  release date before the first dash, and the item has no year when the movie has no
  release date; its poster is the image URL of the poster path, and \<^verbatim>\<open>null\<close> when the
  movie has no poster path (or an empty one).\<close>

definition year_and_poster :: "tmdb_movie \<Rightarrow> jval \<Rightarrow> bool" where
  "year_and_poster m item =
     ((case release_date m of
         None \<Rightarrow> \<not> has_key item ''year''
       | Some s \<Rightarrow> get_field item ''year'' = JStr (before_dash s))
      \<and> (case poster_path m of
            None \<Rightarrow> get_field item ''poster'' = JNull
          | Some p \<Rightarrow>
              get_field item ''poster''
                = (if p = [] then JNull else JStr (''https://image.tmdb.org/t/p/w500'' @ p))))"

text \<open>The movies of a list response.\<close>

definition listed :: "response \<Rightarrow> jval list" where
  "listed r = (case get_field (body r) ''movies'' of JArr ms \<Rightarrow> ms | _ \<Rightarrow> [])"

text \<open>The two answers of a Delete that reached the store.\<close>

definition movie_not_found :: response where
  "movie_not_found = \<lparr>status = 404, body = JObj [(''message'', JStr ''movie not found'')]\<rparr>"

definition movie_removed :: response where
  "movie_removed = \<lparr>status = 200, body = JObj [(''message'', JStr ''movie removed'')]\<rparr>"

section \<open>An instance of the libraries\<close>

text \<open>
  A small executable instance of the parameters, on which the theorems are evaluated:
  an e-mail test that looks for \<^verbatim>\<open>@\<close>, a validator and a driver that take every value
  that is no string for the empty text, a hash that marks the reversed password, a token
  codec that writes the user id and the two times in unary between dots, a MAC as long
  as the secret, and a reader of unsigned decimal integers.
\<close>

definition demo_hash :: "string \<Rightarrow> nat \<Rightarrow> string" where
  "demo_hash p rounds = ''$2b$'' @ rev p"

definition demo_mac :: "string \<Rightarrow> jwt_claims \<Rightarrow> string" where
  "demo_mac secret c = replicate (length secret) CHR ''s''"

definition demo_encode :: "jwt_claims \<Rightarrow> string \<Rightarrow> string" where
  "demo_encode c sg =
     (case jwt_userId c of
        JNum n \<Rightarrow> (if n < 0 then ''n'' else ''p'') @ replicate (nat \<bar>n\<bar>) CHR ''u''
      | _ \<Rightarrow> ''x'')
     @ ''.'' @ replicate (jwt_iat c) CHR ''i'' @ ''.'' @ replicate (jwt_exp c) CHR ''e''
     @ ''.'' @ sg"

definition demo_decode :: "string \<Rightarrow> (jwt_claims \<times> string) option" where
  "demo_decode t =
     (case split_js CHR ''.'' t of
        [a, b, c, sg] \<Rightarrow>
          (case a of
             [] \<Rightarrow> None
           | mark # us \<Rightarrow>
               if (mark = CHR ''p'' \<or> mark = CHR ''n'') \<and> us = replicate (length us) CHR ''u''
                  \<and> b = replicate (length b) CHR ''i'' \<and> c = replicate (length c) CHR ''e''
               then Some (\<lparr>jwt_userId = JNum (if mark = CHR ''p'' then int (length us)
                                                 else - int (length us)),
                            jwt_iat = length b, jwt_exp = length c\<rparr>, sg)
               else None)
      | _ \<Rightarrow> None)"

definition digit_of :: "char \<Rightarrow> nat option" where
  "digit_of c =
     (let k = (of_char c :: nat) in if 48 \<le> k \<and> k \<le> 57 then Some (k - 48) else None)"

fun demo_digits :: "nat \<Rightarrow> string \<Rightarrow> nat option" where
  "demo_digits acc [] = Some acc"
| "demo_digits acc (c # cs) =
     (case digit_of c of None \<Rightarrow> None | Some k \<Rightarrow> demo_digits (10 * acc + k) cs)"

definition demo_int4_in :: "string \<Rightarrow> int option" where
  "demo_int4_in s =
     (if s = [] then None
      else (case demo_digits 0 s of
              None \<Rightarrow> None
            | Some n \<Rightarrow> if n \<le> 2147483647 then Some (int n) else None))"

definition the_matrix :: tmdb_movie where
  "the_matrix = \<lparr>m_id = JNum 603, m_title = JStr ''The Matrix'', m_overview = JStr ''A hacker'',
                 release_date = Some ''1999-03-31'', poster_path = Some ''/matrix.jpg'',
                 genres = Some [\<lparr>g_id = JNum 28, g_name = JStr ''Action''\<rparr>]\<rparr>"

definition untitled :: tmdb_movie where
  "untitled = \<lparr>m_id = JNum 7, m_title = JStr ''Untitled'', m_overview = JStr [],
               release_date = None, poster_path = None, genres = None\<rparr>"

definition demo_axios :: "string \<Rightarrow> tmdb_data option" where
  "demo_axios url =
     (if prefix ''https://api.themoviedb.org/3/movie/'' url then Some (Movie the_matrix)
      else if prefix ''https://api.themoviedb.org/3/'' url then Some (Page [the_matrix, untitled])
      else None)"

definition demo_lib :: lib where
  "demo_lib =
     \<lparr>isEmail = (\<lambda>s. CHR ''@'' \<in> set s),
      ev_standard = (\<lambda>test v. if test [] then 0 else 1),
      bcrypt_hash = demo_hash,
      bcrypt_compare = (\<lambda>p h. h = demo_hash p 12),
      jwt_encode = demo_encode,
      jwt_decode = demo_decode,
      jwt_mac = demo_mac,
      pg_prepare = (\<lambda>v. []),
      int4_in = demo_int4_in,
      encodeURIComponent = (\<lambda>s. s),
      axios_get = demo_axios\<rparr>"

definition demo_env :: process_env where
  "demo_env = \<lparr>env_JWT_SECRET = Some ''s3cret'', env_API_KEY = Some ''key''\<rparr>"

text \<open>An environment in which neither secret is set.\<close>

definition bare_env :: process_env where
  "bare_env = \<lparr>env_JWT_SECRET = None, env_API_KEY = None\<rparr>"

definition alice :: user_row where
  "alice = \<lparr>u_id = 1, u_username = ''alice'', u_email = ''a@x.com'',
            u_password_hash = ''$2b$1terces'', u_display_name = Some ''alice'',
            u_created_at = 100\<rparr>"

definition bob :: user_row where
  "bob = \<lparr>u_id = 2, u_username = ''bob'', u_email = ''b@x.com'',
          u_password_hash = ''$2b$2terces'', u_display_name = None, u_created_at = 200\<rparr>"

definition matrix_of_alice :: saved_row where
  "matrix_of_alice = \<lparr>s_id = 1, s_user_id = 1, s_movie_id = 603, s_title = ''The Matrix'',
                      s_year = Some ''1999'', s_poster = None, s_created_at = 300\<rparr>"

definition demo_db :: db where
  "demo_db = \<lparr>users = [alice, bob], saved_movies = [matrix_of_alice], users_seq = 3,
              saved_seq = 2, online = True\<rparr>"

definition carol_body :: req_body where
  "carol_body = \<lparr>username = JStr ''carol'', email = JStr ''c@x.com'',
                 password = JStr ''secret3'', confirmPassword = JStr ''secret3''\<rparr>"

definition alice_login :: req_body where
  "alice_login = \<lparr>username = JStr ''alice'', email = JUndef, password = JStr ''secret1'',
                  confirmPassword = JUndef\<rparr>"

text \<open>The token that a login of \<open>alice\<close> at clock 1000 returns, and the header carrying it.\<close>

definition alice_token :: string where
  "alice_token = jwt_sign demo_lib (JNum 1) (JWT_SECRET demo_env) seven_days 1000"

definition alice_auth :: "string option" where
  "alice_auth = Some (''Bearer '' @ alice_token)"

text \<open>A token for alice signed under another secret, and one for a user id that the
  table does not hold.\<close>

definition forged_token :: string where
  "forged_token = jwt_sign demo_lib (JNum 1) ''other'' seven_days 1000"

definition stranger_token :: string where
  "stranger_token = jwt_sign demo_lib (JNum 5) (JWT_SECRET demo_env) seven_days 1000"

text \<open>Logins that fail: alice with a wrong password, alice with the number 12345 for a
  password, and the unknown mallory with the same number.\<close>

definition alice_wrong :: req_body where
  "alice_wrong = \<lparr>username = JStr ''alice'', email = JUndef, password = JStr ''wrong'',
                  confirmPassword = JUndef\<rparr>"

definition alice_numeric :: req_body where
  "alice_numeric = \<lparr>username = JStr ''alice'', email = JUndef, password = JNum 12345,
                    confirmPassword = JUndef\<rparr>"

definition mallory_numeric :: req_body where
  "mallory_numeric = \<lparr>username = JStr ''mallory'', email = JUndef, password = JNum 12345,
                      confirmPassword = JUndef\<rparr>"

text \<open>The token that a login of alice returns when no secret is configured.\<close>

definition alice_default_token :: string where
  "alice_default_token = jwt_sign demo_lib (JNum 1) ''change_this_secret'' seven_days 1000"

text \<open>Registrations that collide with alice: her username with a fresh e-mail, a fresh
  username with her e-mail, both of hers, and her e-mail with a username that holds the
  character U+0000.\<close>

definition alice_again :: req_body where
  "alice_again = \<lparr>username = JStr ''alice'', email = JStr ''new@x.com'',
                  password = JStr ''secret9'', confirmPassword = JStr ''secret9''\<rparr>"

definition dave_with_alice_email :: req_body where
  "dave_with_alice_email = \<lparr>username = JStr ''dave'', email = JStr ''a@x.com'',
                            password = JStr ''secret9'', confirmPassword = JStr ''secret9''\<rparr>"

definition alice_twice :: req_body where
  "alice_twice = \<lparr>username = JStr ''alice'', email = JStr ''a@x.com'',
                  password = JStr ''secret9'', confirmPassword = JStr ''secret9''\<rparr>"

definition nul_with_alice_email :: req_body where
  "nul_with_alice_email = \<lparr>username = JStr [CHR ''a'', CHR 0x00, CHR ''b''],
                           email = JStr ''a@x.com'', password = JStr ''secret9'',
                           confirmPassword = JStr ''secret9''\<rparr>"

text \<open>A registration with a username of two characters and a confirmation that differs
  from the password, one whose only fault is the confirmation, and one that breaks all
  four constraints of the validation chains.\<close>

definition short_and_mismatched :: req_body where
  "short_and_mismatched = \<lparr>username = JStr ''ab'', email = JStr ''c@x.com'',
                           password = JStr ''secret3'', confirmPassword = JStr ''other''\<rparr>"

definition only_mismatched :: req_body where
  "only_mismatched = \<lparr>username = JStr ''carol'', email = JStr ''c@x.com'',
                      password = JStr ''secret3'', confirmPassword = JStr ''other''\<rparr>"

definition all_four_broken :: req_body where
  "all_four_broken = \<lparr>username = JStr ''ab'', email = JStr ''nowhere'', password = JStr ''abc'',
                      confirmPassword = JUndef\<rparr>"

text \<open>Bob's token.\<close>

definition bob_auth :: "string option" where
  "bob_auth = Some (''Bearer '' @ jwt_sign demo_lib (JNum 2) (JWT_SECRET demo_env) seven_days 1000)"

text \<open>The body with which alice saves The Matrix.\<close>

definition matrix_body :: save_body where
  "matrix_body = \<lparr>movie_id = JNum 603, title = JStr ''The Matrix'', year = JStr ''1999'',
                  poster = JUndef\<rparr>"

section \<open>Rows and their sanitized form\<close>

lemma sanitize_login_row:
  "sanitizeUser (user_obj [''id'', ''username'', ''email'', ''password_hash'',
                           ''display_name'', ''created_at''] r) = public_user r"
  by (simp add: sanitizeUser_def user_obj_def user_col_def get_prop_def public_user_def
      js_or_def split: option.splits)

lemma sanitize_public_row:
  "sanitizeUser (user_obj [''id'', ''username'', ''email'', ''display_name'',
                           ''created_at''] r) = public_user r"
  by (simp add: sanitizeUser_def user_obj_def user_col_def get_prop_def public_user_def
      js_or_def split: option.splits)

lemma to_json_public_user: "to_json (public_user r) = public_user r"
  by (simp add: public_user_def split: option.splits)

lemma public_user_defined: "public_user r \<noteq> JUndef"
  by (simp add: public_user_def)

lemma filter_hd_in: "filter P xs = y # ys \<Longrightarrow> y \<in> set xs \<and> P y"
proof -
  assume "filter P xs = y # ys"
  then have "y \<in> set (filter P xs)" by simp
  then show ?thesis by simp
qed

lemma login_ok:
  assumes "post_api_login X pe now b d = (r, d')" and "status r = 200"
  shows "\<exists>row \<in> set (users d). pg_text X (username b) = Inr (Some (u_username row))
           \<and> online d \<and> d' = d \<and>
           body r = JObj [(''user'', public_user row),
                          (''token'', JStr (jwt_sign X (JNum (u_id row)) (JWT_SECRET pe)
                                             seven_days now))]"
proof -
  from assms have on: "online d" and nv: "login_validation b = []"
    by (auto simp: post_api_login_def login_try_def select_user_by_username_def res_json_def
        message_def Let_def split: if_splits sum.splits)
  from assms on nv obtain p where p: "pg_text X (username b) = Inr p"
    by (cases "pg_text X (username b)")
       (auto simp: post_api_login_def login_try_def select_user_by_username_def res_json_def
        message_def Let_def)
  let ?rows = "filter (\<lambda>r. Some (u_username r) = p) (users d)"
  show ?thesis
  proof (cases ?rows)
    case Nil
    with assms on nv p show ?thesis
      by (auto simp: post_api_login_def login_try_def select_user_by_username_def res_json_def
          message_def Let_def)
  next
    case (Cons row rest)
    then have mem: "row \<in> set (users d)" and un: "Some (u_username row) = p"
      using filter_hd_in [OF Cons] by auto
    from assms on nv p Cons
    have "d' = d \<and> body r = JObj [(''user'', public_user row),
                          (''token'', JStr (jwt_sign X (JNum (u_id row)) (JWT_SECRET pe)
                                             seven_days now))]"
      by (auto simp: post_api_login_def login_try_def select_user_by_username_def res_json_def
          message_def Let_def sanitize_login_row to_json_public_user public_user_defined
          split: if_splits sum.splits)
         (simp_all add: user_obj_def user_col_def get_prop_def)
    with mem un on p show ?thesis by blast
  qed
qed

lemma auth_ok:
  assumes "authMiddleware X pe now auth d = Inr user"
  shows "\<exists>row \<in> set (users d). \<exists>a c.
           user = user_obj [''id'', ''username'', ''email'', ''display_name'', ''created_at''] row
           \<and> online d \<and> auth = Some a \<and> prefix ''Bearer '' a
           \<and> jwt_verify X (index_js (split_js CHR '' '' a) 1) (JWT_SECRET pe) now = Inr c
           \<and> pg_int X (jwt_userId c) = Inr (Some (u_id row))"
proof -
  from assms obtain a where a: "auth = Some a" "prefix ''Bearer '' a"
    by (auto simp: authMiddleware_def split: option.splits if_splits)
  let ?tok = "index_js (split_js CHR '' '' a) 1"
  from assms a obtain c where c: "jwt_verify X ?tok (JWT_SECRET pe) now = Inr c"
    by (auto simp: authMiddleware_def authMiddleware_try_def Let_def
        split: option.splits if_splits sum.splits)
  from assms a c have on: "online d"
    by (auto simp: authMiddleware_def authMiddleware_try_def select_user_by_id_def Let_def
        split: option.splits if_splits sum.splits)
  from assms a c on obtain p where p: "pg_int X (jwt_userId c) = Inr p"
    by (auto simp: authMiddleware_def authMiddleware_try_def select_user_by_id_def Let_def
        split: option.splits if_splits sum.splits)
  let ?rows = "filter (\<lambda>r. Some (u_id r) = p) (users d)"
  from assms a c on p obtain row rest where rows: "?rows = row # rest"
    and user: "user = user_obj [''id'', ''username'', ''email'', ''display_name'', ''created_at''] row"
    by (cases ?rows)
       (auto simp: authMiddleware_def authMiddleware_try_def select_user_by_id_def Let_def
        split: option.splits if_splits sum.splits)
  from filter_hd_in [OF rows] have "row \<in> set (users d)" "Some (u_id row) = p" by auto
  with a c on p user show ?thesis by auto
qed

lemma insert_user_ok:
  assumes "insert_user X d now un em ph dn = Inr (rows, d')"
  shows "\<exists>row. u_id row = users_seq d
           \<and> rows = [user_obj [''id'', ''username'', ''email'', ''display_name'', ''created_at''] row]
           \<and> d' = d\<lparr>users := users d @ [row], users_seq := users_seq d + 1\<rparr>"
proof -
  from assms have on: "online d" by (auto simp: insert_user_def split: if_splits)
  from assms on obtain u0 e0 h0 n0 where
    t: "pg_text X un = Inr (Some u0)" "pg_text X em = Inr (Some e0)"
       "pg_text X ph = Inr (Some h0)" "pg_text X dn = Inr n0"
    by (auto simp: insert_user_def split: sum.splits option.splits)
  from assms on t obtain u e h n where
    v: "varchar 50 u0 = Inr u" "varchar 255 e0 = Inr e" "varchar 255 h0 = Inr h"
       "(case n0 of None \<Rightarrow> Inr None
         | Some n1 \<Rightarrow> (case varchar 100 n1 of Inl x \<Rightarrow> Inl x | Inr n2 \<Rightarrow> Inr (Some n2))) = Inr n"
    by (simp add: insert_user_def split: sum.splits)
  from assms on t v show ?thesis
    by (auto simp: insert_user_def Let_def split: if_splits
        intro!: exI [of _ "\<lparr>u_id = users_seq d, u_username = u, u_email = e,
                             u_password_hash = h, u_display_name = n, u_created_at = now\<rparr>"])
qed

lemma register_ok:
  assumes "post_api_register X pe now b d = (r, d')" and "status r = 201"
  shows "\<exists>row. u_id row = users_seq d
           \<and> d' = d\<lparr>users := users d @ [row], users_seq := users_seq d + 1\<rparr>
           \<and> body r = JObj [(''user'', public_user row),
                            (''token'', JStr (jwt_sign X (JNum (users_seq d)) (JWT_SECRET pe)
                                               one_hour now))]"
proof -
  from assms have v: "register_validation X b = []"
    and pw: "js_strict_eq (password b) (confirmPassword b)"
    by (auto simp: post_api_register_def res_json_def message_def Let_def split: if_splits)
  from assms v pw have t: "register_try X pe now b d = Inr (r, d')"
    by (auto simp: post_api_register_def res_json_def message_def Let_def split: sum.splits)
  from t assms(2) obtain h where h: "bcrypt_hash_call X (password b) 12 = Inr h"
    by (auto simp: register_try_def res_json_def message_def Let_def
        split: sum.splits if_splits)
  from t assms(2) h obtain rows where
    ins: "insert_user X d now (username b) (email b) (JStr h) (username b) = Inr (rows, d')"
    by (auto simp: register_try_def res_json_def message_def Let_def
        split: sum.splits if_splits list.splits)
  from insert_user_ok [OF ins] obtain row where row: "u_id row = users_seq d"
    and rows: "rows = [user_obj [''id'', ''username'', ''email'', ''display_name'',
                                      ''created_at''] row]"
    and d': "d' = d\<lparr>users := users d @ [row], users_seq := users_seq d + 1\<rparr>"
    by blast
  have id: "get_prop (user_obj [''id'', ''username'', ''email'', ''display_name'',
                                      ''created_at''] row) ''id'' = JNum (users_seq d)"
    by (simp add: user_obj_def user_col_def get_prop_def row)
  from t assms(2) h ins rows
  have "body r = JObj [(''user'', public_user row),
                            (''token'', JStr (jwt_sign X (JNum (users_seq d)) (JWT_SECRET pe)
                                               one_hour now))]"
    by (auto simp: register_try_def res_json_def message_def Let_def id sanitize_public_row
        to_json_public_user public_user_defined
        split: sum.splits if_splits)
  with row d' show ?thesis by blast
qed

section \<open>Tokens and headers\<close>

lemma split_js_no_sep: "c \<notin> set x \<Longrightarrow> split_js c x = [x]"
  by (induction x) auto

lemma split_js_append: "c \<notin> set x \<Longrightarrow> split_js c (x @ c # rest) = x # split_js c rest"
  by (induction x) auto

lemma split_js_hd: "\<exists>ys. split_js c s = takeWhile (\<lambda>x. x \<noteq> c) s # ys"
  by (induction s) auto

lemma bearer_token:
  assumes "CHR '' '' \<notin> set t"
  shows "index_js (split_js CHR '' '' (''Bearer '' @ t)) 1 = Some t"
proof -
  have "split_js CHR '' '' (''Bearer'' @ CHR '' '' # t) = ''Bearer'' # split_js CHR '' '' t"
    by (rule split_js_append) simp
  with assms show ?thesis
    by (simp add: split_js_no_sep index_js_def)
qed

lemma pg_int_num: "pg_int X v = Inr (Some n) \<Longrightarrow> pg_int X (JNum n) = Inr (Some n)"
  by (auto simp: pg_int_def int4_fit_def split: jval.splits option.splits if_splits)

lemma auth_accepts:
  assumes con: "jwt_contract X (JWT_SECRET pe)"
    and time: "now' < now + e"
    and on: "online d"
    and row: "row \<in> set (users d)"
    and fit: "pg_int X (JNum (u_id row)) = Inr (Some (u_id row))"
  shows "\<exists>row' \<in> set (users d). u_id row' = u_id row \<and>
           authMiddleware X pe now' (Some (''Bearer '' @ jwt_sign X (JNum (u_id row)) (JWT_SECRET pe) e now)) d
             = Inr (user_obj [''id'', ''username'', ''email'', ''display_name'', ''created_at''] row')"
proof -
  define c where "c = \<lparr>jwt_userId = JNum (u_id row), jwt_iat = now, jwt_exp = now + e\<rparr>"
  define t where "t = jwt_sign X (JNum (u_id row)) (JWT_SECRET pe) e now"
  have t: "t = jwt_encode X c (jwt_mac X (JWT_SECRET pe) c)"
    by (simp add: t_def c_def jwt_sign_def Let_def)
  from con have dec: "jwt_decode X t = Some (c, jwt_mac X (JWT_SECRET pe) c)"
    and nosp: "CHR '' '' \<notin> set t" and ne: "t \<noteq> []"
    unfolding jwt_contract_def t c_def by (auto simp: Let_def)
  from dec ne time have ver: "jwt_verify X (Some t) (JWT_SECRET pe) now' = Inr c"
    by (simp add: jwt_verify_def c_def)
  let ?rows = "filter (\<lambda>r. u_id r = u_id row) (users d)"
  from row have "?rows \<noteq> []" by (auto simp: filter_empty_conv)
  then obtain row' rest where rows: "?rows = row' # rest" by (cases ?rows) auto
  from filter_hd_in [OF rows] have r': "row' \<in> set (users d)" "u_id row' = u_id row" by auto
  have "authMiddleware X pe now' (Some (''Bearer '' @ t)) d
          = Inr (user_obj [''id'', ''username'', ''email'', ''display_name'', ''created_at''] row')"
    using ver on fit rows bearer_token [OF nosp]
    by (simp add: authMiddleware_def authMiddleware_try_def select_user_by_id_def c_def)
  with r' show ?thesis unfolding t_def by blast
qed

lemma demo_split:
  assumes "CHR ''.'' \<notin> set a" "CHR ''.'' \<notin> set b" "CHR ''.'' \<notin> set c" "CHR ''.'' \<notin> set sg"
  shows "split_js CHR ''.'' (a @ ''.'' @ b @ ''.'' @ c @ ''.'' @ sg) = [a, b, c, sg]"
  using assms by (simp add: split_js_append split_js_no_sep)

lemma demo_roundtrip:
  "demo_decode (demo_encode \<lparr>jwt_userId = JNum n, jwt_iat = iat, jwt_exp = ex\<rparr> (demo_mac secret c))
     = Some (\<lparr>jwt_userId = JNum n, jwt_iat = iat, jwt_exp = ex\<rparr>, demo_mac secret c)"
proof -
  let ?a = "(if n < 0 then ''n'' else ''p'') @ replicate (nat \<bar>n\<bar>) CHR ''u''"
  have "split_js CHR ''.'' (?a @ ''.'' @ replicate iat CHR ''i'' @ ''.'' @ replicate ex CHR ''e''
          @ ''.'' @ demo_mac secret c)
        = [?a, replicate iat CHR ''i'', replicate ex CHR ''e'', demo_mac secret c]"
    by (rule demo_split) (auto simp: demo_mac_def)
  then show ?thesis
    by (simp add: demo_decode_def demo_encode_def)
qed

lemma demo_contract: "jwt_contract demo_lib secret"
  by (simp add: jwt_contract_def demo_lib_def demo_roundtrip Let_def)
     (simp add: demo_encode_def demo_mac_def)

section \<open>Responses never carry the password hash\<close>

lemma sanitized_public_user: "sanitized (public_user r)"
  by (simp add: sanitized_def public_user_def keys_of_def has_key_def)

lemma auth_rejects: "authMiddleware X pe now auth d = Inl r \<Longrightarrow> status r = 401"
  by (auto simp: authMiddleware_def authMiddleware_try_def res_json_def Let_def
      split: option.splits if_splits sum.splits list.splits)

lemma me_ok:
  assumes "status (get_api_me X pe now auth d) = 200"
  shows "\<exists>row \<in> set (users d).
           authMiddleware X pe now auth d
             = Inr (user_obj [''id'', ''username'', ''email'', ''display_name'', ''created_at''] row)
           \<and> body (get_api_me X pe now auth d) = JObj [(''user'', public_user row)]"
proof (cases "authMiddleware X pe now auth d")
  case (Inl r)
  with assms auth_rejects [OF Inl] show ?thesis by (simp add: get_api_me_def)
next
  case (Inr user)
  from auth_ok [OF Inr] obtain row where "row \<in> set (users d)"
    "user = user_obj [''id'', ''username'', ''email'', ''display_name'', ''created_at''] row"
    by blast
  with Inr show ?thesis
    by (auto simp: get_api_me_def res_json_def sanitize_public_row to_json_public_user
        public_user_defined)
qed

text \<open>
  C1. In every successful Register (201), Login (200) and Resolve (\<^verbatim>\<open>GET /api/me\<close>, 200)
  response, the user object is built by \<^verbatim>\<open>sanitizeUser\<close>: its fields are exactly id,
  username, email, display_name and created_at, and it has no password_hash field, also
  when the row it was made from has one (as the row of the login query does).
\<close>

theorem C1_user_without_password_hash:
  "(status (fst (post_api_register X pe now b d)) = 201
      \<longrightarrow> sanitized (user_of (fst (post_api_register X pe now b d))))
   \<and> (status (fst (post_api_login X pe now b d)) = 200
      \<longrightarrow> sanitized (user_of (fst (post_api_login X pe now b d))))
   \<and> (status (get_api_me X pe now auth d) = 200
      \<longrightarrow> sanitized (user_of (get_api_me X pe now auth d)))"
proof (intro conjI impI)
  assume s: "status (fst (post_api_register X pe now b d)) = 201"
  obtain r d' where e: "post_api_register X pe now b d = (r, d')" by (cases "post_api_register X pe now b d")
  from register_ok [OF e] s e show "sanitized (user_of (fst (post_api_register X pe now b d)))"
    by (auto simp: user_of_def get_field_def get_prop_def sanitized_public_user)
next
  assume s: "status (fst (post_api_login X pe now b d)) = 200"
  obtain r d' where e: "post_api_login X pe now b d = (r, d')" by (cases "post_api_login X pe now b d")
  from login_ok [OF e] s e show "sanitized (user_of (fst (post_api_login X pe now b d)))"
    by (auto simp: user_of_def get_field_def get_prop_def sanitized_public_user)
next
  assume s: "status (get_api_me X pe now auth d) = 200"
  from me_ok [OF s] show "sanitized (user_of (get_api_me X pe now auth d))"
    by (auto simp: user_of_def get_field_def get_prop_def sanitized_public_user)
qed

lemma carol_registers:
  "fst (post_api_register demo_lib demo_env 1000 carol_body demo_db)
     = \<lparr>status = 201,
        body = JObj [(''user'', JObj [(''id'', JNum 3), (''username'', JStr ''carol''),
                                      (''email'', JStr ''c@x.com''),
                                      (''display_name'', JStr ''carol''),
                                      (''created_at'', JDate 1000)]),
                     (''token'', JStr (jwt_sign demo_lib (JNum 3) (JWT_SECRET demo_env)
                                         one_hour 1000))]\<rparr>"
  by (simp add: post_api_register_def register_validation_def register_try_def carol_body_def
      demo_db_def alice_def bob_def standard_errors_def select_id_by_username_def
      select_id_by_email_def bcrypt_hash_call_def insert_user_def user_obj_def user_col_def
      get_prop_def sanitizeUser_def js_or_def res_json_def Let_def demo_lib_def demo_hash_def
      pg_text_def text_in_def has_nul_def varchar_def)

lemma alice_logs_in:
  "post_api_login demo_lib demo_env 1000 alice_login demo_db
     = (\<lparr>status = 200,
         body = JObj [(''user'', JObj [(''id'', JNum 1), (''username'', JStr ''alice''),
                                       (''email'', JStr ''a@x.com''),
                                       (''display_name'', JStr ''alice''),
                                       (''created_at'', JDate 100)]),
                      (''token'', JStr alice_token)]\<rparr>, demo_db)"
  by (simp add: post_api_login_def login_validation_def login_try_def alice_login_def
      demo_db_def alice_def bob_def select_user_by_username_def bcrypt_compare_call_def
      user_obj_def user_col_def get_prop_def sanitizeUser_def js_or_def res_json_def Let_def
      demo_lib_def demo_hash_def alice_token_def pg_text_def text_in_def has_nul_def)

lemma alice_resolves:
  "authMiddleware demo_lib demo_env 2000 alice_auth demo_db
     = Inr [(''id'', JNum 1), (''username'', JStr ''alice''), (''email'', JStr ''a@x.com''),
            (''display_name'', JStr ''alice''), (''created_at'', JDate 100)]"
proof -
  have "\<exists>row' \<in> set (users demo_db). u_id row' = u_id alice \<and>
           authMiddleware demo_lib demo_env 2000
             (Some (''Bearer '' @ jwt_sign demo_lib (JNum (u_id alice)) (JWT_SECRET demo_env) seven_days 1000)) demo_db
             = Inr (user_obj [''id'', ''username'', ''email'', ''display_name'', ''created_at''] row')"
    by (rule auth_accepts [OF demo_contract])
       (simp_all add: seven_days_def demo_db_def alice_def pg_int_def int4_fit_def)
  then show ?thesis
    by (auto simp: demo_db_def alice_def bob_def alice_auth_def alice_token_def user_obj_def
        user_col_def)
qed

text \<open>C1 on the instance: carol registers, alice logs in and asks who she is.\<close>

theorem C1_witness:
  "status (fst (post_api_register demo_lib demo_env 1000 carol_body demo_db)) = 201
   \<and> sanitized (user_of (fst (post_api_register demo_lib demo_env 1000 carol_body demo_db)))
   \<and> status (fst (post_api_login demo_lib demo_env 1000 alice_login demo_db)) = 200
   \<and> sanitized (user_of (fst (post_api_login demo_lib demo_env 1000 alice_login demo_db)))
   \<and> status (get_api_me demo_lib demo_env 2000 alice_auth demo_db) = 200
   \<and> sanitized (user_of (get_api_me demo_lib demo_env 2000 alice_auth demo_db))"
proof -
  have h1: "status (fst (post_api_register demo_lib demo_env 1000 carol_body demo_db)) = 201"
    by (simp add: carol_registers)
  have h2: "status (fst (post_api_login demo_lib demo_env 1000 alice_login demo_db)) = 200"
    by (simp add: alice_logs_in)
  have h3: "status (get_api_me demo_lib demo_env 2000 alice_auth demo_db) = 200"
    by (simp add: get_api_me_def alice_resolves res_json_def)
  from h1 h2 h3
    C1_user_without_password_hash [of demo_lib demo_env 1000 carol_body demo_db]
    C1_user_without_password_hash [of demo_lib demo_env 1000 alice_login demo_db]
    C1_user_without_password_hash [of demo_lib demo_env 2000 _ demo_db alice_auth]
  show ?thesis by blast
qed

section \<open>A login token resolves to its user\<close>

text \<open>
  C2. Round trip: a token that a successful Login returned, presented as
  \<^verbatim>\<open>Authorization: Bearer <token>\<close> before its expiry of seven days to a store that is
  online and still holds a row with the id of the user who logged in (an id of the
  integer column), passes authMiddleware, which resolves it to a user with that same id;
  \<^verbatim>\<open>GET /api/me\<close> then answers 200 with that id. The token library is assumed to
  parse what it signed.
\<close>

theorem C2_login_token_resolves:
  assumes con: "jwt_contract X (JWT_SECRET pe)"
    and login: "post_api_login X pe now b d = (r, d1)" "status r = 200"
    and tok: "get_field (body r) ''token'' = JStr t"
    and time: "now' < now + seven_days"
    and on: "online d2"
    and still: "\<exists>row \<in> set (users d2). JNum (u_id row) = get_field (user_of r) ''id''
                  \<and> int4_fit (u_id row) = Inr (Some (u_id row))"
  shows "\<exists>user. authMiddleware X pe now' (Some (''Bearer '' @ t)) d2 = Inr user
           \<and> get_prop user ''id'' = get_field (user_of r) ''id''
           \<and> status (get_api_me X pe now' (Some (''Bearer '' @ t)) d2) = 200
           \<and> get_field (user_of (get_api_me X pe now' (Some (''Bearer '' @ t)) d2)) ''id''
               = get_field (user_of r) ''id''"
proof -
  from login_ok [OF login] obtain row0 where
    body: "body r = JObj [(''user'', public_user row0),
                          (''token'', JStr (jwt_sign X (JNum (u_id row0)) (JWT_SECRET pe)
                                             seven_days now))]"
    by blast
  have uid: "get_field (user_of r) ''id'' = JNum (u_id row0)"
    by (simp add: body user_of_def get_field_def get_prop_def public_user_def)
  from tok body have t: "t = jwt_sign X (JNum (u_id row0)) (JWT_SECRET pe) seven_days now"
    by (simp add: get_field_def get_prop_def)
  from still uid obtain row where row: "row \<in> set (users d2)" "u_id row = u_id row0"
    and fit: "pg_int X (JNum (u_id row)) = Inr (Some (u_id row))"
    by (auto simp: pg_int_def)
  define h where "h = ''Bearer '' @ t"
  from auth_accepts [OF con time on row(1) fit] obtain row' where
    r': "u_id row' = u_id row"
    and acc: "authMiddleware X pe now' (Some h) d2
             = Inr (user_obj [''id'', ''username'', ''email'', ''display_name'', ''created_at''] row')"
    unfolding t row(2) h_def by blast
  have id: "get_prop (user_obj [''id'', ''username'', ''email'', ''display_name'', ''created_at''] row') ''id''
              = JNum (u_id row0)"
    using r' row(2) by (simp add: user_obj_def user_col_def get_prop_def)
  have me: "get_api_me X pe now' (Some h) d2
              = \<lparr>status = 200, body = JObj [(''user'', public_user row')]\<rparr>"
    by (simp add: get_api_me_def acc res_json_def sanitize_public_row to_json_public_user
        public_user_defined)
  have "get_field (user_of (get_api_me X pe now' (Some h) d2)) ''id'' = JNum (u_id row0)"
    using r' row(2) by (simp add: me user_of_def get_field_def get_prop_def public_user_def)
  with acc id uid me show ?thesis unfolding h_def by simp
qed

text \<open>C2 on the instance: the token of alice's login at clock 1000 resolves to alice at
  clock 2000.\<close>

theorem C2_witness:
  "\<exists>user. authMiddleware demo_lib demo_env 2000 (Some (''Bearer '' @ alice_token)) demo_db
            = Inr user
         \<and> get_prop user ''id'' = JNum 1
         \<and> status (get_api_me demo_lib demo_env 2000 (Some (''Bearer '' @ alice_token)) demo_db)
             = 200
         \<and> get_field (user_of (get_api_me demo_lib demo_env 2000
                                  (Some (''Bearer '' @ alice_token)) demo_db)) ''id'' = JNum 1"
proof -
  let ?r = "fst (post_api_login demo_lib demo_env 1000 alice_login demo_db)"
  have l: "post_api_login demo_lib demo_env 1000 alice_login demo_db = (?r, demo_db)"
    by (simp add: alice_logs_in)
  have s: "status ?r = 200" by (simp add: alice_logs_in)
  have t: "get_field (body ?r) ''token'' = JStr alice_token"
    by (simp add: alice_logs_in get_field_def get_prop_def)
  have u: "get_field (user_of ?r) ''id'' = JNum 1"
    by (simp add: alice_logs_in user_of_def get_field_def get_prop_def)
  have time: "(2000::nat) < 1000 + seven_days" by (simp add: seven_days_def)
  have on: "online demo_db" by (simp add: demo_db_def)
  have still: "\<exists>row \<in> set (users demo_db). JNum (u_id row) = get_field (user_of ?r) ''id''
                  \<and> int4_fit (u_id row) = Inr (Some (u_id row))"
    unfolding u by (simp add: demo_db_def alice_def int4_fit_def)
  from C2_login_token_resolves [OF demo_contract l s t time on still] u
  show ?thesis by simp
qed

section \<open>Bad tokens\<close>

lemma unknown_subject_no_rows:
  assumes "\<not> list_ex (\<lambda>row. pg_int X v = Inr (Some (u_id row))) (users d)"
  shows "(\<exists>e. select_user_by_id X d v = Inl e) \<or> select_user_by_id X d v = Inr []"
proof (cases "pg_int X v")
  case (Inl e)
  then show ?thesis by (simp add: select_user_by_id_def)
next
  case (Inr p)
  with assms have "filter (\<lambda>r. Some (u_id r) = p) (users d) = []"
    by (auto simp: list_ex_iff filter_empty_conv)
  with Inr show ?thesis by (simp add: select_user_by_id_def)
qed

lemma try_bad_token:
  assumes "token_malformed X tok \<or> token_bad_signature X (JWT_SECRET pe) tok
           \<or> token_expired X now tok \<or> token_subject_unknown X d tok"
  shows "(\<exists>e. authMiddleware_try X pe now tok d = Inl e)
         \<or> authMiddleware_try X pe now tok d = Inr (Inl invalid_token)"
proof (cases "jwt_verify X tok (JWT_SECRET pe) now")
  case (Inl e)
  then show ?thesis by (simp add: authMiddleware_try_def)
next
  case (Inr c)
  then obtain sg where p: "parsed X tok = Some (c, sg)" and sg: "sg = jwt_mac X (JWT_SECRET pe) c"
    and ex: "\<not> jwt_exp c \<le> now"
    by (auto simp: jwt_verify_def parsed_def split: option.splits if_splits)
  with assms have "\<not> list_ex (\<lambda>row. pg_int X (jwt_userId c) = Inr (Some (u_id row))) (users d)"
    by (auto simp: token_malformed_def token_bad_signature_def token_expired_def
        token_subject_unknown_def)
  from unknown_subject_no_rows [OF this] Inr show ?thesis
    by (auto simp: authMiddleware_try_def invalid_token_def res_json_def message_def)
qed

text \<open>
  C3. A request whose Authorization header starts with \<^verbatim>\<open>Bearer \<close> and whose token
  (the text between the first and the second space) is malformed, or has an invalid
  signature, or has passed its expiry, or names a user id that matches no row of
  \<^verbatim>\<open>users\<close>, is answered by authMiddleware with status 401 and the one body
  \<^verbatim>\<open>{message: "invalid token"}\<close>, the same in all four cases; an expired token is
  refused whatever its signature.
\<close>

theorem C3_bad_token_one_answer:
  assumes bearer: "prefix ''Bearer '' h"
    and tok: "tok = index_js (split_js CHR '' '' h) 1"
    and bad: "token_malformed X tok \<or> token_bad_signature X (JWT_SECRET pe) tok
              \<or> token_expired X now tok \<or> token_subject_unknown X d tok"
  shows "authMiddleware X pe now (Some h) d = Inl invalid_token"
proof -
  from bearer have ne: "h \<noteq> []" by auto
  from try_bad_token [OF bad] ne bearer tok show ?thesis
    by (auto simp: authMiddleware_def invalid_token_def res_json_def message_def Let_def)
qed

lemma signed_token_parses:
  assumes "jwt_contract X secret"
  shows "index_js (split_js CHR '' '' (''Bearer '' @ jwt_sign X (JNum n) secret e now)) 1
           = Some (jwt_sign X (JNum n) secret e now)
         \<and> parsed X (Some (jwt_sign X (JNum n) secret e now))
           = Some (\<lparr>jwt_userId = JNum n, jwt_iat = now, jwt_exp = now + e\<rparr>,
                   jwt_mac X secret \<lparr>jwt_userId = JNum n, jwt_iat = now, jwt_exp = now + e\<rparr>)"
proof -
  define c where "c = \<lparr>jwt_userId = JNum n, jwt_iat = now, jwt_exp = now + e\<rparr>"
  define t where "t = jwt_sign X (JNum n) secret e now"
  have t: "t = jwt_encode X c (jwt_mac X secret c)"
    by (simp add: t_def c_def jwt_sign_def Let_def)
  from assms have dec: "jwt_decode X t = Some (c, jwt_mac X secret c)"
    and nosp: "CHR '' '' \<notin> set t" and ne: "t \<noteq> []"
    unfolding jwt_contract_def t c_def by (auto simp: Let_def)
  from bearer_token [OF nosp] dec ne show ?thesis
    unfolding t_def c_def by (simp add: parsed_def)
qed

text \<open>C3 on the instance, once for each case: a token that does not parse, a token signed
  under another secret, alice's token after its expiry, and a token for user 5.\<close>

theorem C3_witness:
  "authMiddleware demo_lib demo_env 2000 (Some ''Bearer garbage'') demo_db = Inl invalid_token
   \<and> authMiddleware demo_lib demo_env 2000 (Some (''Bearer '' @ forged_token)) demo_db
       = Inl invalid_token
   \<and> authMiddleware demo_lib demo_env 700000 (Some (''Bearer '' @ alice_token)) demo_db
       = Inl invalid_token
   \<and> authMiddleware demo_lib demo_env 2000 (Some (''Bearer '' @ stranger_token)) demo_db
       = Inl invalid_token"
proof -
  have m: "token_malformed demo_lib (index_js (split_js CHR '' '' ''Bearer garbage'') 1)"
    by (simp add: token_malformed_def parsed_def index_js_def demo_lib_def demo_decode_def)
  have f: "token_bad_signature demo_lib (JWT_SECRET demo_env)
             (index_js (split_js CHR '' '' (''Bearer '' @ forged_token)) 1)"
    using signed_token_parses [OF demo_contract, of 1 "''other''" seven_days 1000]
    by (simp add: token_bad_signature_def forged_token_def demo_lib_def demo_mac_def
        JWT_SECRET_def demo_env_def env_or_def)
  have x: "token_expired demo_lib 700000
             (index_js (split_js CHR '' '' (''Bearer '' @ alice_token)) 1)"
    using signed_token_parses [OF demo_contract, of 1 "JWT_SECRET demo_env" seven_days 1000]
    by (simp add: token_expired_def alice_token_def seven_days_def)
  have s: "token_subject_unknown demo_lib demo_db
             (index_js (split_js CHR '' '' (''Bearer '' @ stranger_token)) 1)"
    using signed_token_parses [OF demo_contract, of 5 "JWT_SECRET demo_env" seven_days 1000]
    by (simp add: token_subject_unknown_def stranger_token_def demo_db_def alice_def bob_def
        pg_int_def int4_fit_def)
  have p1: "prefix ''Bearer '' ''Bearer garbage''" by simp
  have p2: "prefix ''Bearer '' (''Bearer '' @ t)" for t by simp
  from C3_bad_token_one_answer
         [where X = demo_lib and pe = demo_env and now = 2000 and d = demo_db, OF p1 refl] m
    C3_bad_token_one_answer
         [where X = demo_lib and pe = demo_env and now = 2000 and d = demo_db, OF p2 refl] f
    C3_bad_token_one_answer
         [where X = demo_lib and pe = demo_env and now = 700000 and d = demo_db, OF p2 refl] x
    C3_bad_token_one_answer
         [where X = demo_lib and pe = demo_env and now = 2000 and d = demo_db, OF p2 refl] s
  show ?thesis by blast
qed

section \<open>Failed logins\<close>

lemma login_unknown_user:
  assumes "online d" "pg_text X (username b) = Inr (Some u)" "password b \<noteq> JUndef"
    and "u \<notin> u_username ` set (users d)"
  shows "post_api_login X pe now b d = (invalid_credentials, d)"
proof -
  from assms(4) have "filter (\<lambda>r. u_username r = u) (users d) = []"
    by (auto simp: filter_empty_conv)
  moreover from assms(2) have "username b \<noteq> JUndef" by (auto simp: pg_text_def)
  ultimately show ?thesis using assms(1-3)
    by (simp add: post_api_login_def login_validation_def login_try_def
        select_user_by_username_def invalid_credentials_def res_json_def message_def)
qed

lemma login_known_user:
  assumes "online d" "pg_text X (username b) = Inr (Some u)" "password b \<noteq> JUndef"
    and known: "u \<in> u_username ` set (users d)"
  shows "\<exists>row \<in> set (users d). u_username row = u
           \<and> post_api_login X pe now b d
             = (case bcrypt_compare_call X (password b) (JStr (u_password_hash row)) of
                  Inl e \<Rightarrow> (internal_error, d)
                | Inr ok \<Rightarrow>
                    if ok
                    then (res_json 200
                            (JObj [(''user'',
                                    sanitizeUser
                                      (user_obj [''id'', ''username'', ''email'', ''password_hash'',
                                                 ''display_name'', ''created_at''] row)),
                                   (''token'',
                                    JStr (jwt_sign X (JNum (u_id row)) (JWT_SECRET pe)
                                            seven_days now))]), d)
                    else (invalid_credentials, d))"
proof -
  let ?rows = "filter (\<lambda>r. u_username r = u) (users d)"
  from known have "?rows \<noteq> []" by (auto simp: filter_empty_conv)
  then obtain row rest where rows: "?rows = row # rest" by (cases ?rows) auto
  from filter_hd_in [OF rows] have r: "row \<in> set (users d)" "u_username row = u" by auto
  from assms(2) have "username b \<noteq> JUndef" by (auto simp: pg_text_def)
  with assms(1-3) rows
  have "post_api_login X pe now b d
             = (case bcrypt_compare_call X (password b) (JStr (u_password_hash row)) of
                  Inl e \<Rightarrow> (internal_error, d)
                | Inr ok \<Rightarrow>
                    if ok
                    then (res_json 200
                            (JObj [(''user'',
                                    sanitizeUser
                                      (user_obj [''id'', ''username'', ''email'', ''password_hash'',
                                                 ''display_name'', ''created_at''] row)),
                                   (''token'',
                                    JStr (jwt_sign X (JNum (u_id row)) (JWT_SECRET pe)
                                            seven_days now))]), d)
                    else (invalid_credentials, d))"
    by (simp add: post_api_login_def login_validation_def login_try_def
        select_user_by_username_def invalid_credentials_def internal_error_def res_json_def
        message_def user_obj_def user_col_def get_prop_def split: sum.splits)
  with r show ?thesis by blast
qed

text \<open>With a password that is a string, the two failures are answered alike.\<close>

lemma login_wrong_string_password:
  assumes "online d" "pg_text X (username b) = Inr (Some u)" "password b = JStr p"
    and "u \<in> u_username ` set (users d)"
    and "\<forall>row \<in> set (users d). u_username row = u
           \<longrightarrow> \<not> bcrypt_compare X p (u_password_hash row)"
  shows "post_api_login X pe now b d = (invalid_credentials, d)"
proof -
  have "password b \<noteq> JUndef" by (simp add: assms(3))
  from login_known_user [where pe = pe and now = now, OF assms(1,2) this assms(4)] assms(3,5)
  show ?thesis
    by (auto simp: bcrypt_compare_call_def)
qed

text \<open>With a password that is present and no string, a known username is answered 500.\<close>

lemma login_nonstring_password:
  assumes "online d" "pg_text X (username b) = Inr (Some u)" "password b \<noteq> JUndef"
    and "\<forall>p. password b \<noteq> JStr p"
    and "u \<in> u_username ` set (users d)"
  shows "post_api_login X pe now b d = (internal_error, d)"
proof -
  from assms(4) have "bcrypt_compare_call X (password b) h = Inl BcryptError" for h
    by (cases "password b") (auto simp: bcrypt_compare_call_def)
  with login_known_user [where pe = pe and now = now, OF assms(1-3) assms(5)] show ?thesis
    by auto
qed

text \<open>
  C5. Username enumeration resistance asks that a Login with a username that matches
  no user and a Login with the username of a user and a wrong password get the same
  response, 401 \<^verbatim>\<open>{message: "invalid credentials"}\<close>. The handler sends that response
  on both branches, and alice with the wrong password \<^verbatim>\<open>"wrong"\<close> gets it. But
  \<^verbatim>\<open>exists()\<close> lets a password through that is no string, and \<^verbatim>\<open>bcrypt.compare\<close>
  throws on it, which happens only once a row was found: with the password 12345
  alice, who is a user, is answered 500 \<^verbatim>\<open>{message: "internal error"}\<close>, and mallory,
  who is none, 401. The two responses tell a caller which usernames exist.
\<close>

theorem C5_nonstring_password_tells_users_apart:
  "post_api_login demo_lib demo_env 1000 alice_wrong demo_db = (invalid_credentials, demo_db)
   \<and> post_api_login demo_lib demo_env 1000 mallory_numeric demo_db
       = (invalid_credentials, demo_db)
   \<and> post_api_login demo_lib demo_env 1000 alice_numeric demo_db = (internal_error, demo_db)
   \<and> status (fst (post_api_login demo_lib demo_env 1000 alice_numeric demo_db))
       \<noteq> status (fst (post_api_login demo_lib demo_env 1000 mallory_numeric demo_db))"
proof -
  have on: "online demo_db" by (simp add: demo_db_def)
  have ua: "pg_text demo_lib (username alice_wrong) = Inr (Some ''alice'')"
    "pg_text demo_lib (username alice_numeric) = Inr (Some ''alice'')"
    and um: "pg_text demo_lib (username mallory_numeric) = Inr (Some ''mallory'')"
    by (simp_all add: alice_wrong_def alice_numeric_def mallory_numeric_def pg_text_def
        text_in_def has_nul_def)
  have t: "''alice'' \<in> u_username ` set (users demo_db)"
    "''mallory'' \<notin> u_username ` set (users demo_db)"
    by (simp_all add: demo_db_def alice_def bob_def)
  have pw: "password alice_wrong = JStr ''wrong''" "password alice_numeric \<noteq> JUndef"
    "password mallory_numeric \<noteq> JUndef" "\<forall>p. password alice_numeric \<noteq> JStr p"
    by (simp_all add: alice_wrong_def alice_numeric_def mallory_numeric_def)
  have w: "\<forall>row \<in> set (users demo_db). u_username row = ''alice''
           \<longrightarrow> \<not> bcrypt_compare demo_lib ''wrong'' (u_password_hash row)"
    by (simp add: demo_db_def alice_def bob_def demo_lib_def demo_hash_def)
  have a: "post_api_login demo_lib demo_env 1000 alice_wrong demo_db
             = (invalid_credentials, demo_db)"
    by (rule login_wrong_string_password [OF on ua(1) pw(1) t(1) w])
  have m: "post_api_login demo_lib demo_env 1000 mallory_numeric demo_db
             = (invalid_credentials, demo_db)"
    by (rule login_unknown_user [OF on um pw(3) t(2)])
  have n: "post_api_login demo_lib demo_env 1000 alice_numeric demo_db
             = (internal_error, demo_db)"
    by (rule login_nonstring_password [OF on ua(2) pw(2) pw(4) t(1)])
  show ?thesis
    by (simp add: a m n) (simp add: internal_error_def invalid_credentials_def)
qed

section \<open>The signing secret\<close>

lemma secret_default:
  "env_JWT_SECRET pe = None \<or> env_JWT_SECRET pe = Some [] \<Longrightarrow> JWT_SECRET pe = ''change_this_secret''"
  by (auto simp: JWT_SECRET_def env_or_def)

lemma auth_by_secret:
  assumes "JWT_SECRET pe = JWT_SECRET pe'"
  shows "authMiddleware X pe now auth d = authMiddleware X pe' now auth d"
  unfolding authMiddleware_def authMiddleware_try_def assms ..

lemma login_by_secret:
  assumes "JWT_SECRET pe = JWT_SECRET pe'"
  shows "post_api_login X pe now b d = post_api_login X pe' now b d"
  unfolding post_api_login_def login_try_def assms ..

lemma register_by_secret:
  assumes "JWT_SECRET pe = JWT_SECRET pe'"
  shows "post_api_register X pe now b d = post_api_register X pe' now b d"
  unfolding post_api_register_def register_try_def assms ..

text \<open>
  C4, as the code has it. When the environment variable JWT_SECRET is absent (or empty),
  the server does not fail closed: it runs with the secret \<^verbatim>\<open>change_this_secret\<close>, and
  Register, Login and authMiddleware answer exactly as they do when the variable is set
  to that text.
\<close>

theorem C4_default_secret:
  assumes "env_JWT_SECRET pe = None \<or> env_JWT_SECRET pe = Some []"
  shows "JWT_SECRET pe = ''change_this_secret''
         \<and> post_api_register X pe now b d
             = post_api_register X (pe\<lparr>env_JWT_SECRET := Some ''change_this_secret''\<rparr>) now b d
         \<and> post_api_login X pe now b d
             = post_api_login X (pe\<lparr>env_JWT_SECRET := Some ''change_this_secret''\<rparr>) now b d
         \<and> authMiddleware X pe now auth d
             = authMiddleware X (pe\<lparr>env_JWT_SECRET := Some ''change_this_secret''\<rparr>) now auth d"
proof -
  have s: "JWT_SECRET pe = ''change_this_secret''" by (rule secret_default [OF assms])
  have "JWT_SECRET pe = JWT_SECRET (pe\<lparr>env_JWT_SECRET := Some ''change_this_secret''\<rparr>)"
    by (simp add: s) (simp add: JWT_SECRET_def env_or_def)
  with s show ?thesis
    by (simp add: auth_by_secret login_by_secret register_by_secret)
qed

text \<open>C4 on the instance, in an environment that sets neither secret.\<close>

theorem C4_witness:
  "JWT_SECRET bare_env = ''change_this_secret''
   \<and> post_api_register demo_lib bare_env 1000 carol_body demo_db
       = post_api_register demo_lib (bare_env\<lparr>env_JWT_SECRET := Some ''change_this_secret''\<rparr>)
           1000 carol_body demo_db
   \<and> post_api_login demo_lib bare_env 1000 alice_login demo_db
       = post_api_login demo_lib (bare_env\<lparr>env_JWT_SECRET := Some ''change_this_secret''\<rparr>)
           1000 alice_login demo_db
   \<and> authMiddleware demo_lib bare_env 2000 alice_auth demo_db
       = authMiddleware demo_lib (bare_env\<lparr>env_JWT_SECRET := Some ''change_this_secret''\<rparr>)
           2000 alice_auth demo_db"
proof -
  have "env_JWT_SECRET bare_env = None \<or> env_JWT_SECRET bare_env = Some []"
    by (simp add: bare_env_def)
  from C4_default_secret [OF this] show ?thesis by blast
qed

lemma alice_logs_in_bare:
  "post_api_login demo_lib bare_env 1000 alice_login demo_db
     = (\<lparr>status = 200,
         body = JObj [(''user'', JObj [(''id'', JNum 1), (''username'', JStr ''alice''),
                                       (''email'', JStr ''a@x.com''),
                                       (''display_name'', JStr ''alice''),
                                       (''created_at'', JDate 100)]),
                      (''token'', JStr alice_default_token)]\<rparr>, demo_db)"
  by (simp add: post_api_login_def login_validation_def login_try_def alice_login_def
      demo_db_def alice_def bob_def select_user_by_username_def bcrypt_compare_call_def
      user_obj_def user_col_def get_prop_def sanitizeUser_def js_or_def res_json_def Let_def
      demo_lib_def demo_hash_def alice_default_token_def JWT_SECRET_def bare_env_def env_or_def
      pg_text_def text_in_def has_nul_def)

lemma alice_resolves_bare:
  "authMiddleware demo_lib bare_env 2000 (Some (''Bearer '' @ alice_default_token)) demo_db
     = Inr [(''id'', JNum 1), (''username'', JStr ''alice''), (''email'', JStr ''a@x.com''),
            (''display_name'', JStr ''alice''), (''created_at'', JDate 100)]"
proof -
  have s: "JWT_SECRET bare_env = ''change_this_secret''"
    by (simp add: JWT_SECRET_def bare_env_def env_or_def)
  have "\<exists>row' \<in> set (users demo_db). u_id row' = u_id alice \<and>
           authMiddleware demo_lib bare_env 2000
             (Some (''Bearer '' @ jwt_sign demo_lib (JNum (u_id alice)) (JWT_SECRET bare_env) seven_days 1000)) demo_db
             = Inr (user_obj [''id'', ''username'', ''email'', ''display_name'', ''created_at''] row')"
    by (rule auth_accepts [OF demo_contract])
       (simp_all add: seven_days_def demo_db_def alice_def pg_int_def int4_fit_def)
  then show ?thesis unfolding s
    by (auto simp: demo_db_def alice_def bob_def alice_default_token_def user_obj_def
        user_col_def)
qed

text \<open>
  C4 as stated fails: with no JWT_SECRET in the environment, a login is answered 200 with
  a token signed under the default secret, and that token is accepted.
\<close>

theorem C4_counterexample:
  "env_JWT_SECRET bare_env = None
   \<and> status (fst (post_api_login demo_lib bare_env 1000 alice_login demo_db)) = 200
   \<and> get_field (body (fst (post_api_login demo_lib bare_env 1000 alice_login demo_db))) ''token''
       = JStr alice_default_token
   \<and> status (get_api_me demo_lib bare_env 2000 (Some (''Bearer '' @ alice_default_token)) demo_db)
       = 200"
proof -
  define h where "h = ''Bearer '' @ alice_default_token"
  have me: "status (get_api_me demo_lib bare_env 2000 (Some h) demo_db) = 200"
    by (simp add: get_api_me_def alice_resolves_bare [folded h_def] res_json_def)
  have env: "env_JWT_SECRET bare_env = None" by (simp add: bare_env_def)
  have login: "status (fst (post_api_login demo_lib bare_env 1000 alice_login demo_db)) = 200"
    "get_field (body (fst (post_api_login demo_lib bare_env 1000 alice_login demo_db))) ''token''
       = JStr alice_default_token"
    by (simp_all add: alice_logs_in_bare get_field_def get_prop_def)
  from me env login show ?thesis unfolding h_def by blast
qed

section \<open>Registering a taken username or e-mail\<close>

lemma register_username_taken:
  assumes "online d" "register_validation X b = []"
    and "js_strict_eq (password b) (confirmPassword b)"
    and "pg_text X (username b) = Inr (Some u)" "u \<in> u_username ` set (users d)"
  shows "post_api_register X pe now b d = (username_taken, d)"
proof -
  from assms(5) have "filter (\<lambda>r. u_username r = u) (users d) \<noteq> []"
    by (auto simp: filter_empty_conv)
  with assms(1-4) show ?thesis
    by (simp add: post_api_register_def register_try_def select_id_by_username_def
        username_taken_def res_json_def message_def)
qed

lemma register_email_used:
  assumes "online d" "register_validation X b = []"
    and "js_strict_eq (password b) (confirmPassword b)"
    and "pg_text X (username b) = Inr (Some u)" "u \<notin> u_username ` set (users d)"
    and "pg_text X (email b) = Inr (Some e)" "e \<in> u_email ` set (users d)"
  shows "post_api_register X pe now b d = (email_used, d)"
proof -
  from assms(5) have "filter (\<lambda>r. u_username r = u) (users d) = []"
    by (auto simp: filter_empty_conv)
  moreover from assms(7) have "filter (\<lambda>r. u_email r = e) (users d) \<noteq> []"
    by (auto simp: filter_empty_conv)
  ultimately show ?thesis using assms(1-4,6)
    by (simp add: post_api_register_def register_try_def select_id_by_username_def
        select_id_by_email_def email_used_def res_json_def message_def)
qed

lemma register_username_refused:
  assumes "register_validation X b = []"
    and "js_strict_eq (password b) (confirmPassword b)"
    and "pg_text X (username b) = Inl x"
  shows "post_api_register X pe now b d = (internal_error, d)"
  using assms
  by (simp add: post_api_register_def register_try_def select_id_by_username_def
      internal_error_def res_json_def message_def)

lemma register_try_keeps_store:
  assumes "register_try X pe now b d = Inr (r, d')"
  shows "d' = d \<or> status r = 201"
proof (cases "select_id_by_username X d (username b)")
  case (Inl x)
  with assms show ?thesis by (simp add: register_try_def)
next
  case u: (Inr us)
  show ?thesis
  proof (cases "us = []")
    case False
    with assms u show ?thesis by (auto simp: register_try_def)
  next
    case True
    show ?thesis
    proof (cases "select_id_by_email X d (email b)")
      case (Inl x)
      with assms u True show ?thesis by (simp add: register_try_def)
    next
      case e: (Inr es)
      show ?thesis
      proof (cases "es = []")
        case False
        with assms u True e show ?thesis by (auto simp: register_try_def)
      next
        case none: True
        with assms u True e show ?thesis
          by (auto simp: register_try_def res_json_def Let_def
              split: sum.splits list.splits)
      qed
    qed
  qed
qed

lemma register_rejected_keeps_store:
  assumes "status (fst (post_api_register X pe now b d)) = 400
           \<or> status (fst (post_api_register X pe now b d)) = 500"
  shows "snd (post_api_register X pe now b d) = d"
proof (cases "register_validation X b = [] \<and> js_strict_eq (password b) (confirmPassword b)")
  case False
  then show ?thesis by (auto simp: post_api_register_def Let_def)
next
  case True
  show ?thesis
  proof (cases "register_try X pe now b d")
    case (Inl x)
    with True show ?thesis by (simp add: post_api_register_def)
  next
    case (Inr rd)
    obtain r d' where rd: "rd = (r, d')" by (cases rd)
    from True Inr rd have p: "post_api_register X pe now b d = (r, d')"
      by (simp add: post_api_register_def)
    from register_try_keeps_store [OF Inr [unfolded rd]] assms p show ?thesis by auto
  qed
qed

lemma register_taken_never_inserts:
  assumes "online d"
    and "(pg_text X (username b) = Inr (Some u) \<and> u \<in> u_username ` set (users d))
         \<or> (pg_text X (email b) = Inr (Some e) \<and> e \<in> u_email ` set (users d))"
  shows "(status (fst (post_api_register X pe now b d)) = 400
          \<or> status (fst (post_api_register X pe now b d)) = 500)
         \<and> snd (post_api_register X pe now b d) = d"
proof -
  have s: "status (fst (post_api_register X pe now b d)) = 400
          \<or> status (fst (post_api_register X pe now b d)) = 500"
  proof (cases "register_validation X b = [] \<and> js_strict_eq (password b) (confirmPassword b)")
    case False
    then show ?thesis
      by (auto simp: post_api_register_def res_json_def Let_def)
  next
    case True
    then have v: "register_validation X b = []"
      "js_strict_eq (password b) (confirmPassword b)" by auto
    show ?thesis
    proof (cases "pg_text X (username b)")
      case (Inl x)
      from register_username_refused [OF v Inl] show ?thesis
        by (simp add: internal_error_def)
    next
      case (Inr p)
      show ?thesis
      proof (cases "filter (\<lambda>r. Some (u_username r) = p) (users d) = []")
        case False
        with assms(1) v Inr show ?thesis
          by (simp add: post_api_register_def register_try_def select_id_by_username_def
              res_json_def)
      next
        case none: True
        with assms(2) Inr have e: "pg_text X (email b) = Inr (Some e)"
          "e \<in> u_email ` set (users d)"
          by (auto simp: filter_empty_conv)
        then have "filter (\<lambda>r. u_email r = e) (users d) \<noteq> []"
          by (auto simp: filter_empty_conv)
        with assms(1) v Inr none e(1) show ?thesis
          by (simp add: post_api_register_def register_try_def select_id_by_username_def
              select_id_by_email_def res_json_def)
      qed
    qed
  qed
  with register_rejected_keeps_store [OF s] show ?thesis by simp
qed

text \<open>
  C6, as the code has it. On an online store, a Register request that passes the
  structural validation and carries the username of an existing user is answered 400
  \<^verbatim>\<open>{message: "username already taken"}\<close> whatever its e-mail. One that carries the
  e-mail of an existing user is answered 400 \<^verbatim>\<open>{message: "email already used"}\<close> when
  its username matches no user and is a text that the store accepts as a parameter of
  the username lookup, which comes first; when the store refuses the username (a text
  with the character U+0000), the handler's catch answers 500
  \<^verbatim>\<open>{message: "internal error"}\<close> instead. In every one of these cases, and for any
  request at all with the username or the e-mail of an existing user, no row is
  inserted.
\<close>

theorem C6_register_conflicts:
  "(online d \<and> register_validation X b = [] \<and> js_strict_eq (password b) (confirmPassword b)
      \<and> pg_text X (username b) = Inr (Some u) \<and> u \<in> u_username ` set (users d)
      \<longrightarrow> post_api_register X pe now b d = (username_taken, d))
   \<and> (online d \<and> register_validation X b = [] \<and> js_strict_eq (password b) (confirmPassword b)
      \<and> pg_text X (username b) = Inr (Some u) \<and> u \<notin> u_username ` set (users d)
      \<and> pg_text X (email b) = Inr (Some e) \<and> e \<in> u_email ` set (users d)
      \<longrightarrow> post_api_register X pe now b d = (email_used, d))
   \<and> (register_validation X b = [] \<and> js_strict_eq (password b) (confirmPassword b)
      \<and> pg_text X (username b) = Inl x
      \<longrightarrow> post_api_register X pe now b d = (internal_error, d))
   \<and> (online d
      \<and> (pg_text X (username b) = Inr (Some u) \<and> u \<in> u_username ` set (users d)
           \<or> pg_text X (email b) = Inr (Some e) \<and> e \<in> u_email ` set (users d))
      \<longrightarrow> (status (fst (post_api_register X pe now b d)) = 400
           \<or> status (fst (post_api_register X pe now b d)) = 500)
          \<and> snd (post_api_register X pe now b d) = d)"
proof (intro conjI impI)
  assume "online d \<and> register_validation X b = []
      \<and> js_strict_eq (password b) (confirmPassword b)
      \<and> pg_text X (username b) = Inr (Some u) \<and> u \<in> u_username ` set (users d)"
  then show "post_api_register X pe now b d = (username_taken, d)"
    using register_username_taken by blast
next
  assume "online d \<and> register_validation X b = []
      \<and> js_strict_eq (password b) (confirmPassword b)
      \<and> pg_text X (username b) = Inr (Some u) \<and> u \<notin> u_username ` set (users d)
      \<and> pg_text X (email b) = Inr (Some e) \<and> e \<in> u_email ` set (users d)"
  then show "post_api_register X pe now b d = (email_used, d)"
    using register_email_used by blast
next
  assume "register_validation X b = [] \<and> js_strict_eq (password b) (confirmPassword b)
      \<and> pg_text X (username b) = Inl x"
  then show "post_api_register X pe now b d = (internal_error, d)"
    using register_username_refused by blast
next
  assume a: "online d
      \<and> (pg_text X (username b) = Inr (Some u) \<and> u \<in> u_username ` set (users d)
           \<or> pg_text X (email b) = Inr (Some e) \<and> e \<in> u_email ` set (users d))"
  then have "online d"
    and "(pg_text X (username b) = Inr (Some u) \<and> u \<in> u_username ` set (users d))
         \<or> (pg_text X (email b) = Inr (Some e) \<and> e \<in> u_email ` set (users d))"
    by blast+
  from register_taken_never_inserts [OF this]
  show "status (fst (post_api_register X pe now b d)) = 400
           \<or> status (fst (post_api_register X pe now b d)) = 500"
    and "snd (post_api_register X pe now b d) = d"
    by blast+
qed

lemma demo_texts:
  "pg_text demo_lib (JStr ''alice'') = Inr (Some ''alice'')"
  "pg_text demo_lib (JStr ''dave'') = Inr (Some ''dave'')"
  "pg_text demo_lib (JStr ''a@x.com'') = Inr (Some ''a@x.com'')"
  "pg_text demo_lib (JStr [CHR ''a'', CHR 0x00, CHR ''b'']) = Inl DbError"
  by (simp_all add: pg_text_def text_in_def has_nul_def)

lemma demo_valid:
  "register_validation demo_lib alice_again = []"
  "register_validation demo_lib dave_with_alice_email = []"
  "register_validation demo_lib alice_twice = []"
  "register_validation demo_lib nul_with_alice_email = []"
  "js_strict_eq (password alice_again) (confirmPassword alice_again)"
  "js_strict_eq (password dave_with_alice_email) (confirmPassword dave_with_alice_email)"
  "js_strict_eq (password alice_twice) (confirmPassword alice_twice)"
  "js_strict_eq (password nul_with_alice_email) (confirmPassword nul_with_alice_email)"
  by (simp_all add: register_validation_def standard_errors_def alice_again_def
      dave_with_alice_email_def alice_twice_def nul_with_alice_email_def demo_lib_def)

text \<open>C6 on the instance: alice's username with a fresh e-mail, a fresh username with
  alice's e-mail, both of alice's, and alice's e-mail with a username that the store
  refuses.\<close>

theorem C6_witness:
  "post_api_register demo_lib demo_env 1000 alice_again demo_db = (username_taken, demo_db)
   \<and> post_api_register demo_lib demo_env 1000 dave_with_alice_email demo_db
       = (email_used, demo_db)
   \<and> post_api_register demo_lib demo_env 1000 alice_twice demo_db = (username_taken, demo_db)
   \<and> post_api_register demo_lib demo_env 1000 nul_with_alice_email demo_db
       = (internal_error, demo_db)"
proof -
  have on: "online demo_db" by (simp add: demo_db_def)
  have u: "username alice_again = JStr ''alice''"
    "username dave_with_alice_email = JStr ''dave''"
    "username alice_twice = JStr ''alice''"
    "username nul_with_alice_email = JStr [CHR ''a'', CHR 0x00, CHR ''b'']"
    "email dave_with_alice_email = JStr ''a@x.com''"
    by (simp_all add: alice_again_def dave_with_alice_email_def alice_twice_def
        nul_with_alice_email_def)
  have t: "''alice'' \<in> u_username ` set (users demo_db)"
    "''dave'' \<notin> u_username ` set (users demo_db)"
    "''a@x.com'' \<in> u_email ` set (users demo_db)"
    by (simp_all add: demo_db_def alice_def bob_def)
  have p: "pg_text demo_lib (username alice_again) = Inr (Some ''alice'')"
    "pg_text demo_lib (username dave_with_alice_email) = Inr (Some ''dave'')"
    "pg_text demo_lib (username alice_twice) = Inr (Some ''alice'')"
    "pg_text demo_lib (username nul_with_alice_email) = Inl DbError"
    "pg_text demo_lib (email dave_with_alice_email) = Inr (Some ''a@x.com'')"
    by (simp_all add: u demo_texts)
  have 1: "post_api_register demo_lib demo_env 1000 alice_again demo_db
             = (username_taken, demo_db)"
    using C6_register_conflicts [of demo_db demo_lib alice_again "''alice''" demo_env 1000]
      on demo_valid(1,5) p(1) t(1) by simp
  have 2: "post_api_register demo_lib demo_env 1000 dave_with_alice_email demo_db
             = (email_used, demo_db)"
    using C6_register_conflicts [of demo_db demo_lib dave_with_alice_email "''dave''" demo_env
        1000 "''a@x.com''"]
      on demo_valid(2,6) p(2,5) t(2,3) by simp
  have 3: "post_api_register demo_lib demo_env 1000 alice_twice demo_db
             = (username_taken, demo_db)"
    using C6_register_conflicts [of demo_db demo_lib alice_twice "''alice''" demo_env 1000]
      on demo_valid(3,7) p(3) t(1) by simp
  have 4: "post_api_register demo_lib demo_env 1000 nul_with_alice_email demo_db
             = (internal_error, demo_db)"
    using C6_register_conflicts [where X = demo_lib and b = nul_with_alice_email
        and pe = demo_env and now = 1000 and d = demo_db and x = DbError]
      demo_valid(4,8) p(4) by simp
  from 1 2 3 4 show ?thesis by simp
qed

text \<open>
  C6 as stated fails: this request passes the validation and carries alice's e-mail with
  a username that matches no user, and it is not answered with the conflict
  \<^verbatim>\<open>"email already used"\<close> but with 500 \<^verbatim>\<open>"internal error"\<close>, because its username
  holds the character U+0000 and the store refuses the username lookup.
\<close>

theorem C6_counterexample:
  "register_validation demo_lib nul_with_alice_email = []
   \<and> js_strict_eq (password nul_with_alice_email) (confirmPassword nul_with_alice_email)
   \<and> email nul_with_alice_email = JStr (u_email alice)
   \<and> post_api_register demo_lib demo_env 1000 nul_with_alice_email demo_db
       = (internal_error, demo_db)
   \<and> internal_error \<noteq> email_used"
proof -
  have "pg_text demo_lib (username nul_with_alice_email) = Inl DbError"
    by (simp add: nul_with_alice_email_def pg_text_def text_in_def has_nul_def)
  from register_username_refused [OF demo_valid(4) demo_valid(8) this]
  show ?thesis
    by (simp add: demo_valid)
       (simp add: nul_with_alice_email_def alice_def internal_error_def email_used_def)
qed

section \<open>Validation of a registration\<close>

lemma to_json_verror: "to_json (verror p m) = verror p m"
  by (simp add: verror_def)

lemma to_json_elems_append: "to_json_elems (xs @ ys) = to_json_elems xs @ to_json_elems ys"
  by (induction xs) auto

lemma to_json_elems_verrors:
  "to_json_elems (replicate n (verror p m)) = replicate n (verror p m)"
  by (induction n) (simp_all add: to_json_verror, simp add: verror_def)

lemma to_json_validation: "to_json_elems (register_validation X b) = register_validation X b"
  by (simp add: register_validation_def to_json_elems_append to_json_elems_verrors
      to_json_verror)
     (simp add: verror_def)

lemma register_invalid:
  assumes "register_validation X b \<noteq> []"
  shows "post_api_register X pe now b d
           = (\<lparr>status = 400, body = JObj [(''errors'', JArr (register_validation X b))]\<rparr>, d)"
  using assms by (simp add: post_api_register_def res_json_def to_json_validation)

lemma reported_errors:
  "reported \<lparr>status = s, body = JObj [(''errors'', JArr es)]\<rparr> = map (\<lambda>e. get_field e ''msg'') es"
  by (simp add: reported_def get_field_def get_prop_def)

lemma reported_validation:
  "map (\<lambda>e. get_field e ''msg'') (register_validation X b)
     = replicate (standard_errors X (\<lambda>s. 3 \<le> length s) (username b))
         (JStr ''username min 3 chars'')
       @ replicate (standard_errors X (isEmail X) (email b)) (JStr ''invalid email'')
       @ replicate (standard_errors X (\<lambda>s. 6 \<le> length s) (password b))
           (JStr ''password min 6 chars'')
       @ (if confirmPassword b = JUndef then [JStr ''Invalid value''] else [])"
  by (simp add: register_validation_def verror_def get_field_def get_prop_def)

lemma validation_empty:
  "register_validation X b = []
     \<longleftrightarrow> \<not> fails X (\<lambda>s. 3 \<le> length s) (username b) \<and> \<not> fails X (isEmail X) (email b)
         \<and> \<not> fails X (\<lambda>s. 6 \<le> length s) (password b) \<and> confirmPassword b \<noteq> JUndef"
  by (auto simp: register_validation_def fails_def)

lemma fails_string: "fails X test (JStr s) \<longleftrightarrow> \<not> test s"
  by (simp add: fails_def standard_errors_def)

text \<open>
  C7, as the code has it. A Register request that violates one of the constraints of the
  validation chains (username shorter than 3, e-mail refused by the e-mail test, password
  shorter than 6, confirmPassword absent) is answered 400 with an \<^verbatim>\<open>errors\<close> array that
  reports every one of these four that is violated and none that is not, and leaves the
  store as it was; that array never reports that password and confirmPassword differ.
  The difference is reported, alone, as 400 \<^verbatim>\<open>{message: "passwords do not match"}\<close>,
  when none of the four is violated; the store is left as it was then too. On a field
  that is a string, the three tests are those on its length and its e-mail syntax.
\<close>

theorem C7_validation_reports:
  "(fails X (\<lambda>s. 3 \<le> length s) (username b) \<or> fails X (isEmail X) (email b)
      \<or> fails X (\<lambda>s. 6 \<le> length s) (password b) \<or> confirmPassword b = JUndef
      \<longrightarrow> status (fst (post_api_register X pe now b d)) = 400
          \<and> snd (post_api_register X pe now b d) = d
          \<and> (JStr ''username min 3 chars'' \<in> set (reported (fst (post_api_register X pe now b d)))
               \<longleftrightarrow> fails X (\<lambda>s. 3 \<le> length s) (username b))
          \<and> (JStr ''invalid email'' \<in> set (reported (fst (post_api_register X pe now b d)))
               \<longleftrightarrow> fails X (isEmail X) (email b))
          \<and> (JStr ''password min 6 chars'' \<in> set (reported (fst (post_api_register X pe now b d)))
               \<longleftrightarrow> fails X (\<lambda>s. 6 \<le> length s) (password b))
          \<and> (JStr ''Invalid value'' \<in> set (reported (fst (post_api_register X pe now b d)))
               \<longleftrightarrow> confirmPassword b = JUndef)
          \<and> JStr ''passwords do not match'' \<notin> set (reported (fst (post_api_register X pe now b d))))
   \<and> (\<not> fails X (\<lambda>s. 3 \<le> length s) (username b) \<and> \<not> fails X (isEmail X) (email b)
      \<and> \<not> fails X (\<lambda>s. 6 \<le> length s) (password b) \<and> confirmPassword b \<noteq> JUndef
      \<and> \<not> js_strict_eq (password b) (confirmPassword b)
      \<longrightarrow> post_api_register X pe now b d
            = (\<lparr>status = 400, body = JObj [(''message'', JStr ''passwords do not match'')]\<rparr>, d))
   \<and> (fails X (\<lambda>s. 3 \<le> length s) (JStr u) \<longleftrightarrow> length u < 3)
   \<and> (fails X (isEmail X) (JStr m) \<longleftrightarrow> \<not> isEmail X m)
   \<and> (fails X (\<lambda>s. 6 \<le> length s) (JStr p) \<longleftrightarrow> length p < 6)"
proof (intro conjI impI)
  assume "\<not> fails X (\<lambda>s. 3 \<le> length s) (username b) \<and> \<not> fails X (isEmail X) (email b)
      \<and> \<not> fails X (\<lambda>s. 6 \<le> length s) (password b) \<and> confirmPassword b \<noteq> JUndef
      \<and> \<not> js_strict_eq (password b) (confirmPassword b)"
  then have "register_validation X b = []" "\<not> js_strict_eq (password b) (confirmPassword b)"
    by (simp_all add: validation_empty)
  then show "post_api_register X pe now b d
            = (\<lparr>status = 400, body = JObj [(''message'', JStr ''passwords do not match'')]\<rparr>, d)"
    by (simp add: post_api_register_def res_json_def message_def)
next
  show "fails X (\<lambda>s. 3 \<le> length s) (JStr u) \<longleftrightarrow> length u < 3"
    by (auto simp: fails_string)
  show "fails X (isEmail X) (JStr m) \<longleftrightarrow> \<not> isEmail X m"
    by (simp add: fails_string)
  show "fails X (\<lambda>s. 6 \<le> length s) (JStr p) \<longleftrightarrow> length p < 6"
    by (auto simp: fails_string)
next
  assume a: "fails X (\<lambda>s. 3 \<le> length s) (username b) \<or> fails X (isEmail X) (email b)
      \<or> fails X (\<lambda>s. 6 \<le> length s) (password b) \<or> confirmPassword b = JUndef"
  then have ne: "register_validation X b \<noteq> []"
    using validation_empty [of X b] by blast
  note r = register_invalid [OF ne, of pe now d]
  show "status (fst (post_api_register X pe now b d)) = 400" by (simp add: r)
  show "snd (post_api_register X pe now b d) = d" by (simp add: r)
  show "JStr ''username min 3 chars'' \<in> set (reported (fst (post_api_register X pe now b d)))
               \<longleftrightarrow> fails X (\<lambda>s. 3 \<le> length s) (username b)"
    by (simp add: r reported_errors reported_validation fails_def)
  show "JStr ''invalid email'' \<in> set (reported (fst (post_api_register X pe now b d)))
               \<longleftrightarrow> fails X (isEmail X) (email b)"
    by (simp add: r reported_errors reported_validation fails_def)
  show "JStr ''password min 6 chars'' \<in> set (reported (fst (post_api_register X pe now b d)))
               \<longleftrightarrow> fails X (\<lambda>s. 6 \<le> length s) (password b)"
    by (simp add: r reported_errors reported_validation fails_def)
  show "JStr ''Invalid value'' \<in> set (reported (fst (post_api_register X pe now b d)))
               \<longleftrightarrow> confirmPassword b = JUndef"
    by (simp add: r reported_errors reported_validation)
  show "JStr ''passwords do not match'' \<notin> set (reported (fst (post_api_register X pe now b d)))"
    by (simp add: r reported_errors reported_validation)
qed

lemma demo_failures:
  "fails demo_lib (\<lambda>s. 3 \<le> length s) (username all_four_broken)"
  "fails demo_lib (isEmail demo_lib) (email all_four_broken)"
  "fails demo_lib (\<lambda>s. 6 \<le> length s) (password all_four_broken)"
  "confirmPassword all_four_broken = JUndef"
  "fails demo_lib (\<lambda>s. 3 \<le> length s) (username short_and_mismatched)"
  "\<not> fails demo_lib (isEmail demo_lib) (email short_and_mismatched)"
  "\<not> fails demo_lib (\<lambda>s. 6 \<le> length s) (password short_and_mismatched)"
  "confirmPassword short_and_mismatched \<noteq> JUndef"
  "\<not> js_strict_eq (password short_and_mismatched) (confirmPassword short_and_mismatched)"
  "\<not> fails demo_lib (\<lambda>s. 3 \<le> length s) (username only_mismatched)"
  "\<not> fails demo_lib (isEmail demo_lib) (email only_mismatched)"
  "\<not> fails demo_lib (\<lambda>s. 6 \<le> length s) (password only_mismatched)"
  "confirmPassword only_mismatched \<noteq> JUndef"
  "\<not> js_strict_eq (password only_mismatched) (confirmPassword only_mismatched)"
  by (simp_all add: fails_def standard_errors_def all_four_broken_def
      short_and_mismatched_def only_mismatched_def demo_lib_def)

text \<open>C7 on the instance: a request that breaks all four constraints, and one whose only
  fault is that the passwords differ.\<close>

theorem C7_witness:
  "status (fst (post_api_register demo_lib demo_env 1000 all_four_broken demo_db)) = 400
   \<and> snd (post_api_register demo_lib demo_env 1000 all_four_broken demo_db) = demo_db
   \<and> JStr ''username min 3 chars''
        \<in> set (reported (fst (post_api_register demo_lib demo_env 1000 all_four_broken demo_db)))
   \<and> JStr ''invalid email''
        \<in> set (reported (fst (post_api_register demo_lib demo_env 1000 all_four_broken demo_db)))
   \<and> JStr ''password min 6 chars''
        \<in> set (reported (fst (post_api_register demo_lib demo_env 1000 all_four_broken demo_db)))
   \<and> JStr ''Invalid value''
        \<in> set (reported (fst (post_api_register demo_lib demo_env 1000 all_four_broken demo_db)))
   \<and> post_api_register demo_lib demo_env 1000 only_mismatched demo_db
       = (\<lparr>status = 400, body = JObj [(''message'', JStr ''passwords do not match'')]\<rparr>, demo_db)"
proof -
  have 1: "status (fst (post_api_register demo_lib demo_env 1000 all_four_broken demo_db)) = 400
   \<and> snd (post_api_register demo_lib demo_env 1000 all_four_broken demo_db) = demo_db
   \<and> JStr ''username min 3 chars''
        \<in> set (reported (fst (post_api_register demo_lib demo_env 1000 all_four_broken demo_db)))
   \<and> JStr ''invalid email''
        \<in> set (reported (fst (post_api_register demo_lib demo_env 1000 all_four_broken demo_db)))
   \<and> JStr ''password min 6 chars''
        \<in> set (reported (fst (post_api_register demo_lib demo_env 1000 all_four_broken demo_db)))
   \<and> JStr ''Invalid value''
        \<in> set (reported (fst (post_api_register demo_lib demo_env 1000 all_four_broken demo_db)))"
    using C7_validation_reports [of demo_lib all_four_broken demo_env 1000 demo_db]
      demo_failures(1-4) by simp
  have 2: "post_api_register demo_lib demo_env 1000 only_mismatched demo_db
       = (\<lparr>status = 400, body = JObj [(''message'', JStr ''passwords do not match'')]\<rparr>, demo_db)"
    using C7_validation_reports [of demo_lib only_mismatched demo_env 1000 demo_db]
      demo_failures(10-14) by simp
  from 1 2 show ?thesis by simp
qed

text \<open>
  C7 as stated fails: this request violates two constraints, the length of the username
  and the equality of password and confirmPassword, and the response reports the first
  only.
\<close>

theorem C7_counterexample:
  "username short_and_mismatched = JStr ''ab''
   \<and> length ''ab'' < (3::nat)
   \<and> \<not> js_strict_eq (password short_and_mismatched) (confirmPassword short_and_mismatched)
   \<and> reported (fst (post_api_register demo_lib demo_env 1000 short_and_mismatched demo_db))
       = [JStr ''username min 3 chars'']"
proof -
  have "register_validation demo_lib short_and_mismatched
          = [verror ''username'' ''username min 3 chars'']"
    by (simp add: register_validation_def short_and_mismatched_def standard_errors_def
        demo_lib_def)
  then show ?thesis
    by (simp add: register_invalid reported_errors verror_def get_field_def get_prop_def
        demo_failures(9))
       (simp add: short_and_mismatched_def)
qed

section \<open>Reshaped catalog items\<close>

lemma year_of_Some: "year_of (Some s) = JStr (before_dash s)"
proof -
  obtain ys where "split_js CHR ''-'' s = takeWhile (\<lambda>x. x \<noteq> CHR ''-'') s # ys"
    using split_js_hd by blast
  then show ?thesis by (simp add: year_of_def index_js_def before_dash_def)
qed

lemma year_of_None: "year_of None = JUndef"
  by (simp add: year_of_def)

lemma result_item_year_and_poster: "year_and_poster m (to_json (result_item m))"
  by (cases "release_date m"; cases "poster_path m")
     (simp_all add: year_and_poster_def result_item_def year_of_Some poster_of_def
       get_field_def get_prop_def has_key_def year_of_None)

lemma details_item_year_and_poster: "year_and_poster m (to_json (details_item m))"
  by (cases "release_date m"; cases "poster_path m"; cases "genres m")
     (simp_all add: year_and_poster_def details_item_def year_of_Some poster_of_def
       get_field_def get_prop_def has_key_def year_of_None)

lemma to_json_results: "to_json_elems (map result_item ms) = map (\<lambda>m. to_json (result_item m)) ms"
  by (induction ms) (simp_all add: result_item_def)

text \<open>
  C9. When the catalog answers, the search and trending handlers return each movie of
  the page reshaped, and the details handler returns the movie reshaped; in every such
  item the year is the release date up to its first dash, and is left out of the item
  when the movie has no release date, and the poster is
  \<^verbatim>\<open>https://image.tmdb.org/t/p/w500\<close> followed by the poster path, and is \<^verbatim>\<open>null\<close>
  when the movie has no poster path.
\<close>

theorem C9_reshaped_items:
  "(q \<noteq> [] \<and> axios_get X (search_url X pe q) = Some (Page ms)
      \<longrightarrow> get_api_movies_search X pe (Some q)
            = \<lparr>status = 200,
               body = JObj [(''results'', JArr (map (\<lambda>m. to_json (result_item m)) ms))]\<rparr>)
   \<and> (axios_get X (trending_url pe) = Some (Page ms)
      \<longrightarrow> get_api_movies_trending X pe
            = \<lparr>status = 200,
               body = JObj [(''results'', JArr (map (\<lambda>m. to_json (result_item m)) ms))]\<rparr>)
   \<and> (axios_get X (details_url pe movieId) = Some (Movie m)
      \<longrightarrow> get_api_movies_details X pe movieId
            = \<lparr>status = 200, body = to_json (details_item m)\<rparr>)
   \<and> year_and_poster m (to_json (result_item m))
   \<and> year_and_poster m (to_json (details_item m))"
  by (simp add: get_api_movies_search_def get_api_movies_trending_def
      get_api_movies_details_def res_json_def to_json_results
      result_item_year_and_poster details_item_year_and_poster)

text \<open>C9 on the instance: the trending page holds a movie with a release date and a
  poster path, and one with neither; the details are those of the first.\<close>

theorem C9_witness:
  "get_api_movies_search demo_lib demo_env (Some ''matrix'')
     = \<lparr>status = 200,
        body = JObj [(''results'',
                 JArr [JObj [(''id'', JNum 603), (''title'', JStr ''The Matrix''),
                             (''overview'', JStr ''A hacker''), (''year'', JStr ''1999''),
                             (''poster'', JStr ''https://image.tmdb.org/t/p/w500/matrix.jpg'')],
                       JObj [(''id'', JNum 7), (''title'', JStr ''Untitled''),
                             (''overview'', JStr []), (''poster'', JNull)]])]\<rparr>
   \<and> get_api_movies_trending demo_lib demo_env
     = \<lparr>status = 200,
        body = JObj [(''results'',
                 JArr [JObj [(''id'', JNum 603), (''title'', JStr ''The Matrix''),
                             (''overview'', JStr ''A hacker''), (''year'', JStr ''1999''),
                             (''poster'', JStr ''https://image.tmdb.org/t/p/w500/matrix.jpg'')],
                       JObj [(''id'', JNum 7), (''title'', JStr ''Untitled''),
                             (''overview'', JStr []), (''poster'', JNull)]])]\<rparr>
   \<and> get_api_movies_details demo_lib demo_env ''603''
     = \<lparr>status = 200,
        body = JObj [(''id'', JNum 603), (''title'', JStr ''The Matrix''),
                     (''overview'', JStr ''A hacker''), (''year'', JStr ''1999''),
                     (''poster'', JStr ''https://image.tmdb.org/t/p/w500/matrix.jpg''),
                     (''genres'', JArr [JStr ''Action''])]\<rparr>
   \<and> year_and_poster the_matrix (to_json (result_item the_matrix))
   \<and> year_and_poster untitled (to_json (details_item untitled))"
proof -
  have s: "''matrix'' \<noteq> [] \<and> axios_get demo_lib (search_url demo_lib demo_env ''matrix'')
             = Some (Page [the_matrix, untitled])"
    by (simp add: demo_lib_def demo_axios_def search_url_def)
  have t: "axios_get demo_lib (trending_url demo_env) = Some (Page [the_matrix, untitled])"
    by (simp add: demo_lib_def demo_axios_def trending_url_def)
  have d: "axios_get demo_lib (details_url demo_env ''603'') = Some (Movie the_matrix)"
    by (simp add: demo_lib_def demo_axios_def details_url_def)
  have i: "to_json (result_item the_matrix)
             = JObj [(''id'', JNum 603), (''title'', JStr ''The Matrix''),
                     (''overview'', JStr ''A hacker''), (''year'', JStr ''1999''),
                     (''poster'', JStr ''https://image.tmdb.org/t/p/w500/matrix.jpg'')]"
    "to_json (result_item untitled)
             = JObj [(''id'', JNum 7), (''title'', JStr ''Untitled''),
                     (''overview'', JStr []), (''poster'', JNull)]"
    "to_json (details_item the_matrix)
             = JObj [(''id'', JNum 603), (''title'', JStr ''The Matrix''),
                     (''overview'', JStr ''A hacker''), (''year'', JStr ''1999''),
                     (''poster'', JStr ''https://image.tmdb.org/t/p/w500/matrix.jpg''),
                     (''genres'', JArr [JStr ''Action''])]"
    by (simp_all add: result_item_def details_item_def the_matrix_def untitled_def
        year_of_def poster_of_def index_js_def)
  from s t d
    C9_reshaped_items [of "''matrix''" demo_lib demo_env "[the_matrix, untitled]" "''603''"
      the_matrix]
    C9_reshaped_items [of "''matrix''" demo_lib demo_env "[the_matrix, untitled]" "''603''"
      untitled]
  show ?thesis unfolding i [symmetric] by simp
qed

section \<open>Saved movies belong to their user\<close>

lemma auth_user:
  assumes "authMiddleware X pe now auth d = Inr user"
  shows "\<exists>a. get_prop user ''id'' = JNum a \<and> pg_int X (JNum a) = Inr (Some a) \<and> online d"
proof -
  from auth_ok [OF assms] obtain row and c :: jwt_claims where
    u: "user = user_obj [''id'', ''username'', ''email'', ''display_name'', ''created_at''] row"
    and on: "online d" and p: "pg_int X (jwt_userId c) = Inr (Some (u_id row))"
    by blast
  from u have "get_prop user ''id'' = JNum (u_id row)"
    by (simp add: user_obj_def user_col_def get_prop_def)
  with pg_int_num [OF p] on show ?thesis by blast
qed

lemma auth_ignores_saved:
  "authMiddleware X pe now auth (d\<lparr>saved_movies := s, saved_seq := q\<rparr>)
     = authMiddleware X pe now auth d"
proof -
  have u: "users (d\<lparr>saved_movies := s, saved_seq := q\<rparr>) = users d"
    and o: "online (d\<lparr>saved_movies := s, saved_seq := q\<rparr>) = online d"
    by simp_all
  show ?thesis
    unfolding authMiddleware_def authMiddleware_try_def select_user_by_id_def u o ..
qed

lemma auth_ignores_saved_movies:
  "authMiddleware X pe now auth (d\<lparr>saved_movies := s\<rparr>) = authMiddleware X pe now auth d"
proof -
  have u: "users (d\<lparr>saved_movies := s\<rparr>) = users d"
    and o: "online (d\<lparr>saved_movies := s\<rparr>) = online d"
    by simp_all
  show ?thesis
    unfolding authMiddleware_def authMiddleware_try_def select_user_by_id_def u o ..
qed

lemma to_json_saved_obj: "to_json (JObj (saved_obj r)) = JObj (saved_obj r)"
  by (simp add: saved_obj_def null_or_str_def split: option.splits)

lemma to_json_saved_rows:
  "to_json_elems (map JObj (map saved_obj rows)) = map (\<lambda>r. JObj (saved_obj r)) rows"
proof (induction rows)
  case Nil
  show ?case by simp
next
  case (Cons r rows)
  have "to_json (JObj (saved_obj r)) = JObj (saved_obj r)" by (rule to_json_saved_obj)
  with Cons show ?case by simp
qed

lemma mymovies_ok:
  assumes "authMiddleware X pe now auth d = Inr user" "get_prop user ''id'' = JNum a"
  shows "get_api_mymovies X pe now auth d
           = \<lparr>status = 200,
              body = JObj [(''movies'',
                       JArr (map (\<lambda>r. JObj (saved_obj r))
                              (rev (sort_key s_created_at (owned_by a (saved_movies d))))))]\<rparr>"
proof -
  from auth_user [OF assms(1)] assms(2) have p: "pg_int X (JNum a) = Inr (Some a)" and on: "online d"
    by auto
  have "to_json_elems (map JObj (map saved_obj (rev (sort_key s_created_at (owned_by a (saved_movies d))))))
          = map (\<lambda>r. JObj (saved_obj r)) (rev (sort_key s_created_at (owned_by a (saved_movies d))))"
    by (rule to_json_saved_rows)
  with assms p on show ?thesis
    by (simp add: get_api_mymovies_def select_saved_by_user_def res_json_def owned_by_def)
qed

lemma delete_ok:
  assumes "authMiddleware X pe now auth d = Inr user" "get_prop user ''id'' = JNum a"
    and "movieId \<noteq> []" "pg_int X (JStr movieId) = Inr (Some m)"
  shows "delete_api_movies X pe now auth movieId d
           = ((if saved_of a m (saved_movies d) = [] then movie_not_found else movie_removed),
              d\<lparr>saved_movies := filter (\<lambda>r. \<not> (s_user_id r = a \<and> s_movie_id r = m))
                                  (saved_movies d)\<rparr>)"
proof -
  from auth_user [OF assms(1)] assms(2) have p: "pg_int X (JNum a) = Inr (Some a)" and on: "online d"
    by auto
  with assms show ?thesis
    by (simp add: delete_api_movies_def delete_saved_def res_json_def message_def
        saved_of_def movie_not_found_def movie_removed_def Let_def)
qed

lemma filter_none: "filter P xs = [] \<Longrightarrow> filter (\<lambda>r. \<not> P r) xs = xs"
  by (induction xs) (auto split: if_splits)

lemma delete_keeps_others:
  assumes "authMiddleware X pe now auth d = Inr user" "get_prop user ''id'' = JNum b"
    and "a \<noteq> b"
  shows "owned_by a (saved_movies (snd (delete_api_movies X pe now auth movieId d)))
           = owned_by a (saved_movies d)"
proof -
  from auth_user [OF assms(1)] assms(2) have p: "pg_int X (JNum b) = Inr (Some b)" and on: "online d"
    by auto
  have f: "filter (\<lambda>r. (s_user_id r = b \<longrightarrow> Some (s_movie_id r) \<noteq> mm) \<and> s_user_id r = a) rows
           = filter (\<lambda>r. s_user_id r = a) rows" for mm rows
    using assms(3) by (induction rows) auto
  from assms(1,2) p on show ?thesis
    by (auto simp: delete_api_movies_def delete_saved_def owned_by_def Let_def f
        split: sum.splits)
qed

lemma bob_resolves:
  "authMiddleware demo_lib demo_env 2000 bob_auth demo_db
     = Inr [(''id'', JNum 2), (''username'', JStr ''bob''), (''email'', JStr ''b@x.com''),
            (''display_name'', JNull), (''created_at'', JDate 200)]"
proof -
  have "\<exists>row' \<in> set (users demo_db). u_id row' = u_id bob \<and>
           authMiddleware demo_lib demo_env 2000
             (Some (''Bearer '' @ jwt_sign demo_lib (JNum (u_id bob)) (JWT_SECRET demo_env) seven_days 1000)) demo_db
             = Inr (user_obj [''id'', ''username'', ''email'', ''display_name'', ''created_at''] row')"
    by (rule auth_accepts [OF demo_contract])
       (simp_all add: seven_days_def demo_db_def bob_def pg_int_def int4_fit_def)
  then show ?thesis
    by (auto simp: demo_db_def alice_def bob_def bob_auth_def user_obj_def user_col_def)
qed

lemma demo_reads_603: "pg_int demo_lib (JStr ''603'') = Inr (Some 603)"
  by (simp add: pg_int_def demo_lib_def demo_int4_in_def digit_of_def int4_fit_def)

lemma listed_items:
  assumes "authMiddleware X pe now auth d = Inr user" "get_prop user ''id'' = JNum b"
  shows "listed (get_api_mymovies X pe now auth d)
           = map (\<lambda>r. JObj (saved_obj r))
               (rev (sort_key s_created_at (owned_by b (saved_movies d))))"
  by (simp add: mymovies_ok [OF assms] listed_def get_field_def get_prop_def)

text \<open>
  C8. For a request that authMiddleware resolves to the user with id \<open>b\<close>: the list is
  answered 200 and every row in it has \<open>b\<close> as its \<^verbatim>\<open>user_id\<close>; a Delete leaves the
  rows of every other user in the table; and a Delete of a movie id for which \<open>b\<close> owns
  no row is answered 404 \<^verbatim>\<open>{message: "movie not found"}\<close> and changes nothing, whoever
  else owns rows for that movie: the response is the one given when the table holds no
  row at all.
\<close>

theorem C8_owner_scoping:
  assumes "authMiddleware X pe now auth d = Inr user" and "get_prop user ''id'' = JNum b"
  shows "status (get_api_mymovies X pe now auth d) = 200
         \<and> (\<forall>item \<in> set (listed (get_api_mymovies X pe now auth d)).
               get_field item ''user_id'' = JNum b)
         \<and> (a \<noteq> b \<longrightarrow> owned_by a (saved_movies (snd (delete_api_movies X pe now auth movieId d)))
                           = owned_by a (saved_movies d))
         \<and> (movieId \<noteq> [] \<and> pg_int X (JStr movieId) = Inr (Some m)
              \<and> saved_of b m (saved_movies d) = []
            \<longrightarrow> delete_api_movies X pe now auth movieId d = (movie_not_found, d)
                \<and> fst (delete_api_movies X pe now auth movieId (d\<lparr>saved_movies := []\<rparr>))
                    = movie_not_found)"
proof (intro conjI impI ballI)
  show "status (get_api_mymovies X pe now auth d) = 200"
    by (simp add: mymovies_ok [OF assms])
next
  fix item
  assume "item \<in> set (listed (get_api_mymovies X pe now auth d))"
  then obtain r where "r \<in> set (owned_by b (saved_movies d))" "item = JObj (saved_obj r)"
    by (auto simp: listed_items [OF assms])
  then show "get_field item ''user_id'' = JNum b"
    by (simp add: owned_by_def saved_obj_def get_field_def get_prop_def)
next
  assume "a \<noteq> b"
  from delete_keeps_others [OF assms this]
  show "owned_by a (saved_movies (snd (delete_api_movies X pe now auth movieId d)))
          = owned_by a (saved_movies d)" .
next
  assume h: "movieId \<noteq> [] \<and> pg_int X (JStr movieId) = Inr (Some m)
              \<and> saved_of b m (saved_movies d) = []"
  then have e: "filter (\<lambda>r. s_user_id r = b \<and> s_movie_id r = m) (saved_movies d) = []"
    by (simp add: saved_of_def)
  have "d\<lparr>saved_movies := filter (\<lambda>r. \<not> (s_user_id r = b \<and> s_movie_id r = m)) (saved_movies d)\<rparr>
          = d"
    using filter_none [OF e] by simp
  with h delete_ok [OF assms, of movieId m]
  show "delete_api_movies X pe now auth movieId d = (movie_not_found, d)" by simp
next
  assume h: "movieId \<noteq> [] \<and> pg_int X (JStr movieId) = Inr (Some m)
              \<and> saved_of b m (saved_movies d) = []"
  have "authMiddleware X pe now auth (d\<lparr>saved_movies := []\<rparr>) = Inr user"
    by (simp add: auth_ignores_saved_movies assms)
  from delete_ok [OF this assms(2), of movieId m] h
  show "fst (delete_api_movies X pe now auth movieId (d\<lparr>saved_movies := []\<rparr>)) = movie_not_found"
    by (simp add: saved_of_def)
qed

text \<open>C8 on the instance: alice's list holds her row, with her id; bob's list is empty;
  bob's Delete of movie 603, which alice owns, is answered 404 and changes nothing.\<close>

theorem C8_witness:
  "status (get_api_mymovies demo_lib demo_env 2000 alice_auth demo_db) = 200
   \<and> listed (get_api_mymovies demo_lib demo_env 2000 alice_auth demo_db)
       = [JObj (saved_obj matrix_of_alice)]
   \<and> get_field (JObj (saved_obj matrix_of_alice)) ''user_id'' = JNum 1
   \<and> listed (get_api_mymovies demo_lib demo_env 2000 bob_auth demo_db) = []
   \<and> owned_by 1 (saved_movies (snd (delete_api_movies demo_lib demo_env 2000 bob_auth ''603''
                                      demo_db))) = [matrix_of_alice]
   \<and> delete_api_movies demo_lib demo_env 2000 bob_auth ''603'' demo_db
       = (movie_not_found, demo_db)"
proof -
  have ia: "get_prop [(''id'', JNum 1), (''username'', JStr ''alice''),
                      (''email'', JStr ''a@x.com''), (''display_name'', JStr ''alice''),
                      (''created_at'', JDate 100)] ''id'' = JNum 1"
    and ib: "get_prop [(''id'', JNum 2), (''username'', JStr ''bob''),
                      (''email'', JStr ''b@x.com''), (''display_name'', JNull),
                      (''created_at'', JDate 200)] ''id'' = JNum 2"
    by (simp_all add: get_prop_def)
  have la: "listed (get_api_mymovies demo_lib demo_env 2000 alice_auth demo_db)
              = [JObj (saved_obj matrix_of_alice)]"
    unfolding listed_items [OF alice_resolves ia]
    by (simp add: owned_by_def demo_db_def matrix_of_alice_def)
  have lb: "listed (get_api_mymovies demo_lib demo_env 2000 bob_auth demo_db) = []"
    unfolding listed_items [OF bob_resolves ib]
    by (simp add: owned_by_def demo_db_def matrix_of_alice_def)
  have pre: "''603'' \<noteq> [] \<and> pg_int demo_lib (JStr ''603'') = Inr (Some 603)
              \<and> saved_of 2 603 (saved_movies demo_db) = []"
    by (simp add: demo_reads_603 saved_of_def demo_db_def matrix_of_alice_def)
  have own: "owned_by 1 (saved_movies demo_db) = [matrix_of_alice]"
    by (simp add: owned_by_def demo_db_def matrix_of_alice_def)
  from C8_owner_scoping [OF alice_resolves ia, of 2 "''603''" 603]
    C8_owner_scoping [OF bob_resolves ib, of 1 "''603''" 603] la lb pre own
  show ?thesis by simp
qed

section \<open>Saved movies are not deduplicated\<close>

lemma save_ok:
  assumes "authMiddleware X pe now auth d = Inr user" "get_prop user ''id'' = JNum a"
    and "pg_int X (movie_id b) = Inr (Some m)" "truthy (movie_id b)" "truthy (title b)"
    and "pg_text X (title b) = Inr (Some t)" "pg_text X (year b) = Inr y"
    and "pg_text X (poster b) = Inr p"
  shows "post_api_movies_save X pe now auth b d
           = (\<lparr>status = 201,
               body = JObj [(''movie'',
                        JObj (saved_obj \<lparr>s_id = saved_seq d, s_user_id = a, s_movie_id = m,
                                          s_title = t, s_year = y, s_poster = p,
                                          s_created_at = now\<rparr>))]\<rparr>,
              d\<lparr>saved_movies := saved_movies d @
                   [\<lparr>s_id = saved_seq d, s_user_id = a, s_movie_id = m, s_title = t,
                     s_year = y, s_poster = p, s_created_at = now\<rparr>],
                saved_seq := saved_seq d + 1\<rparr>)"
proof -
  from auth_user [OF assms(1)] assms(2) have p: "pg_int X (JNum a) = Inr (Some a)" and on: "online d"
    by auto
  have j: "to_json (JObj (saved_obj r)) = JObj (saved_obj r)" for r
    by (rule to_json_saved_obj)
  from assms p on show ?thesis
    using j [of "\<lparr>s_id = saved_seq d, s_user_id = a, s_movie_id = m, s_title = t,
                     s_year = y, s_poster = p, s_created_at = now\<rparr>"]
    by (simp add: post_api_movies_save_def insert_saved_def res_json_def Let_def)
qed

text \<open>What a Save that is answered 201 tells of its body: none of it depends on the rows
  of the table.\<close>

lemma save_201:
  assumes "authMiddleware X pe now auth d = Inr user"
    and "status (fst (post_api_movies_save X pe now auth b d)) = 201"
  shows "truthy (movie_id b) \<and> truthy (title b)
         \<and> (\<exists>t y p. pg_text X (title b) = Inr (Some t) \<and> pg_text X (year b) = Inr y
                \<and> pg_text X (poster b) = Inr p)"
proof -
  from assms have tr: "truthy (movie_id b)" "truthy (title b)"
    by (auto simp: post_api_movies_save_def res_json_def split: if_splits)
  from assms tr obtain rd where
    ins: "insert_saved X d now (get_prop user ''id'') (movie_id b) (title b) (year b) (poster b)
            = Inr rd"
    by (cases "insert_saved X d now (get_prop user ''id'') (movie_id b) (title b) (year b)
                 (poster b)")
       (auto simp: post_api_movies_save_def res_json_def)
  then have "\<exists>t y p. pg_text X (title b) = Inr (Some t) \<and> pg_text X (year b) = Inr y
                \<and> pg_text X (poster b) = Inr p"
    by (auto simp: insert_saved_def split: if_splits sum.splits option.splits)
  with tr show ?thesis by simp
qed

text \<open>
  C10. Saved movies are not deduplicated. Take a user whom authMiddleware resolves at
  both clocks, and a Save of a movie id that would be answered 201 if the user had no
  row for that movie. The same Save is answered 201 also when the user has rows for the
  movie, and appends one more row for that user and movie. A Delete of that movie id
  afterwards is answered 200 and removes every row of that user for that movie in the
  one call, those that were there before the Save too, and no other row.
\<close>

theorem C10_duplicates_and_delete:
  assumes "authMiddleware X pe t1 auth d = Inr user" and "authMiddleware X pe t2 auth d = Inr user"
    and "get_prop user ''id'' = JNum a"
    and "pg_int X (movie_id b) = Inr (Some m)"
    and "status (fst (post_api_movies_save X pe t1 auth b
                        (d\<lparr>saved_movies := filter (\<lambda>r. \<not> (s_user_id r = a \<and> s_movie_id r = m))
                                              (saved_movies d)\<rparr>))) = 201"
    and "movieId \<noteq> []" and "pg_int X (JStr movieId) = Inr (Some m)"
    and "d1 = snd (post_api_movies_save X pe t1 auth b d)"
    and "d2 = snd (delete_api_movies X pe t2 auth movieId d1)"
  shows "status (fst (post_api_movies_save X pe t1 auth b d)) = 201
         \<and> (\<exists>row. s_id row = saved_seq d \<and> s_user_id row = a \<and> s_movie_id row = m
                \<and> s_created_at row = t1
                \<and> saved_movies d1 = saved_movies d @ [row]
                \<and> saved_of a m (saved_movies d1) = saved_of a m (saved_movies d) @ [row])
         \<and> length (saved_of a m (saved_movies d1)) = length (saved_of a m (saved_movies d)) + 1
         \<and> fst (delete_api_movies X pe t2 auth movieId d1) = movie_removed
         \<and> saved_of a m (saved_movies d2) = []
         \<and> filter (\<lambda>r. \<not> (s_user_id r = a \<and> s_movie_id r = m)) (saved_movies d2)
             = filter (\<lambda>r. \<not> (s_user_id r = a \<and> s_movie_id r = m)) (saved_movies d)"
proof -
  let ?d0 = "d\<lparr>saved_movies := filter (\<lambda>r. \<not> (s_user_id r = a \<and> s_movie_id r = m))
                                  (saved_movies d)\<rparr>"
  have a0: "authMiddleware X pe t1 auth ?d0 = Inr user"
    by (simp add: auth_ignores_saved_movies assms(1))
  from save_201 [OF a0 assms(5)] obtain t y p where
    tr: "truthy (movie_id b)" "truthy (title b)"
    and tx: "pg_text X (title b) = Inr (Some t)" "pg_text X (year b) = Inr y"
      "pg_text X (poster b) = Inr p"
    by blast
  let ?row = "\<lparr>s_id = saved_seq d, s_user_id = a, s_movie_id = m, s_title = t,
                   s_year = y, s_poster = p, s_created_at = t1\<rparr>"
  note s = save_ok [OF assms(1) assms(3) assms(4) tr tx]
  have d1: "d1 = d\<lparr>saved_movies := saved_movies d @ [?row], saved_seq := saved_seq d + 1\<rparr>"
    by (simp add: assms(8) s)
  have a2: "authMiddleware X pe t2 auth d1 = Inr user"
    by (simp add: d1 auth_ignores_saved assms(2))
  note del = delete_ok [OF a2 assms(3) assms(6,7)]
  have grow: "saved_of a m (saved_movies d1) = saved_of a m (saved_movies d) @ [?row]"
    by (simp add: d1 saved_of_def)
  then have ne: "saved_of a m (saved_movies d1) \<noteq> []" by simp
  have d2: "d2 = d1\<lparr>saved_movies := filter (\<lambda>r. \<not> (s_user_id r = a \<and> s_movie_id r = m))
                                  (saved_movies d1)\<rparr>"
    by (simp add: assms(9) del)
  have 1: "status (fst (post_api_movies_save X pe t1 auth b d)) = 201" by (simp add: s)
  have 2: "\<exists>row. s_id row = saved_seq d \<and> s_user_id row = a \<and> s_movie_id row = m
                \<and> s_created_at row = t1
                \<and> saved_movies d1 = saved_movies d @ [row]
                \<and> saved_of a m (saved_movies d1) = saved_of a m (saved_movies d) @ [row]"
    by (rule exI [of _ ?row]) (simp add: grow, simp add: d1)
  have 3: "length (saved_of a m (saved_movies d1)) = length (saved_of a m (saved_movies d)) + 1"
    by (simp add: grow)
  have 4: "fst (delete_api_movies X pe t2 auth movieId d1) = movie_removed"
    using ne by (simp add: del)
  have 5: "saved_of a m (saved_movies d2) = []"
    by (simp add: d2 saved_of_def)
  have 6: "filter (\<lambda>r. \<not> (s_user_id r = a \<and> s_movie_id r = m)) (saved_movies d2)
             = filter (\<lambda>r. \<not> (s_user_id r = a \<and> s_movie_id r = m)) (saved_movies d)"
    by (simp add: d2) (simp add: d1)
  from 1 2 3 4 5 6 show ?thesis by blast
qed

text \<open>C10 on the instance: alice, who has saved movie 603, saves it again and then
  deletes it; after the Save she has two rows for it, after the Delete none.\<close>

theorem C10_witness:
  "status (fst (post_api_movies_save demo_lib demo_env 2000 alice_auth matrix_body demo_db)) = 201
   \<and> length (saved_of 1 603
               (saved_movies (snd (post_api_movies_save demo_lib demo_env 2000 alice_auth
                                     matrix_body demo_db)))) = 2
   \<and> fst (delete_api_movies demo_lib demo_env 2000 alice_auth ''603''
            (snd (post_api_movies_save demo_lib demo_env 2000 alice_auth matrix_body demo_db)))
       = movie_removed
   \<and> saved_of 1 603
         (saved_movies
            (snd (delete_api_movies demo_lib demo_env 2000 alice_auth ''603''
                    (snd (post_api_movies_save demo_lib demo_env 2000 alice_auth matrix_body
                            demo_db)))))
       = []"
proof -
  have ia: "get_prop [(''id'', JNum 1), (''username'', JStr ''alice''),
                      (''email'', JStr ''a@x.com''), (''display_name'', JStr ''alice''),
                      (''created_at'', JDate 100)] ''id'' = JNum 1"
    by (simp add: get_prop_def)
  have m: "pg_int demo_lib (movie_id matrix_body) = Inr (Some 603)"
    "truthy (movie_id matrix_body)" "truthy (title matrix_body)"
    "pg_text demo_lib (title matrix_body) = Inr (Some ''The Matrix'')"
    "pg_text demo_lib (year matrix_body) = Inr (Some ''1999'')"
    "pg_text demo_lib (poster matrix_body) = Inr None"
    by (simp_all add: matrix_body_def pg_int_def int4_fit_def pg_text_def text_in_def
        has_nul_def)
  define d0 where
    "d0 = demo_db\<lparr>saved_movies := filter (\<lambda>r. \<not> (s_user_id r = 1 \<and> s_movie_id r = 603))
                                      (saved_movies demo_db)\<rparr>"
  have a0: "authMiddleware demo_lib demo_env 2000 alice_auth d0
              = Inr [(''id'', JNum 1), (''username'', JStr ''alice''),
                     (''email'', JStr ''a@x.com''), (''display_name'', JStr ''alice''),
                     (''created_at'', JDate 100)]"
    unfolding d0_def by (simp only: auth_ignores_saved_movies alice_resolves)
  have first: "status (fst (post_api_movies_save demo_lib demo_env 2000 alice_auth matrix_body
                              d0)) = 201"
    by (simp add: save_ok [OF a0 ia m])
  have old: "length (saved_of 1 603 (saved_movies demo_db)) = 1"
    by (simp add: saved_of_def demo_db_def matrix_of_alice_def)
  from C10_duplicates_and_delete
         [OF alice_resolves alice_resolves ia m(1) first [unfolded d0_def] _ demo_reads_603 refl
           refl] old
  show ?thesis by simp
qed

end
